theory Spec2Isabelle
  imports Complex_Main
begin

section \<open>Access control and ownership model of the 3D room-design backend\<close>

text \<open>
  A shallow embedding of the invariant-bearing part of the backend: the Mongoose models
  \<^verbatim>\<open>Project\<close> (src/unnamed/part_000), \<^verbatim>\<open>Design\<close> and \<^verbatim>\<open>Template\<close> (src/unnamed/part_001),
  the middleware of src/middleware/auth.js and the route handlers of src/routes/projects.js,
  src/routes/designs.js and the template router (second half of src/routes/ai-tools.js).

  Conventions of the embedding.
  \<^item> An ObjectId is compared through \<^verbatim>\<open>toString()\<close> everywhere in the source, so it is
    modelled by its string.
  \<^item> A JavaScript \<^verbatim>\<open>Number\<close> is an IEEE 754 binary64 value: a \<open>number\<close> of the model,
    whose arithmetic rounds every result to the nearest double. A counter that is only
    ever incremented by one is an \<^typ>\<open>int\<close>, and a length is a \<^typ>\<open>nat\<close>.
  \<^item> A JavaScript string whose characters the modelled code inspects or counts (a name, a
    description, a tag) is the list of its UTF-16 code units, a \<open>jsstring\<close>; a string
    that is only compared for equality or carried along is a \<^typ>\<open>string\<close>.
  \<^item> A date is the number of milliseconds it denotes (\<^typ>\<open>nat\<close>); the clock is an
    argument of every operation that reads it.
  \<^item> A route handler is a function from the document store and the request to a reply
    and the new store. The field \<^verbatim>\<open>_id\<close> of a document is written \<open>oid\<close> with the
    record's prefix, since an Isabelle name cannot start with an underscore.
\<close>

type_synonym objectId = string
type_synonym date = nat

subsection \<open>Subscription tiers (SubscriptionGate)\<close>

datatype plan = Free | Pro | Enterprise

text \<open>
  The object literal \<^verbatim>\<open>{ free: 1, pro: 2, enterprise: 3 }\<close>, which the source writes three
  times: \<^verbatim>\<open>subscriptionHierarchy\<close> in \<^verbatim>\<open>templateSchema.methods.canAccess\<close>, and
  \<^verbatim>\<open>planHierarchy\<close> in \<^verbatim>\<open>requireSubscription\<close> and in the upgrade route.
\<close>

fun subscriptionHierarchy :: "plan \<Rightarrow> nat" where
  "subscriptionHierarchy Free = 1"
| "subscriptionHierarchy Pro = 2"
| "subscriptionHierarchy Enterprise = 3"

fun planHierarchy :: "plan \<Rightarrow> nat" where
  "planHierarchy Free = 1"
| "planHierarchy Pro = 2"
| "planHierarchy Enterprise = 3"

text \<open>The user record as far as the middleware reads it: \<^verbatim>\<open>_id\<close>, \<^verbatim>\<open>subscription.plan\<close>.\<close>

record user =
  u_oid :: objectId
  subscription_plan :: plan

text \<open>
  The part of a Template document that the access rules and the catalogue filter read.
  \<^verbatim>\<open>requirements.subscription\<close> is the gating tier.
\<close>

record template =
  t_oid :: objectId
  t_name :: string
  t_category :: string
  t_style :: string
  requirements_subscription :: plan
  t_isActive :: bool
  t_isFeatured :: bool
  t_popularity :: int

text \<open>\<^verbatim>\<open>templateSchema.methods.canAccess = function(userSubscription)\<close>\<close>

definition canAccess :: "template \<Rightarrow> plan \<Rightarrow> bool" where
  "canAccess this userSubscription =
     (subscriptionHierarchy userSubscription \<ge> subscriptionHierarchy (requirements_subscription this))"

text \<open>
  What a middleware or a handler answers: \<open>Next\<close> hands the request on, \<open>Reply\<close> ends
  it with an HTTP status and the \<^verbatim>\<open>message\<close> of the JSON envelope.
\<close>

datatype reply = Next | Reply nat string

text \<open>
  \<^verbatim>\<open>requireSubscription(requiredPlan)\<close> of src/middleware/auth.js; \<open>req_user\<close> is
  \<^verbatim>\<open>req.user\<close>, absent when no identity is attached.
\<close>

fun plan_name :: "plan \<Rightarrow> string" where
  "plan_name Free = ''free''"
| "plan_name Pro = ''pro''"
| "plan_name Enterprise = ''enterprise''"

definition requireSubscription :: "plan \<Rightarrow> user option \<Rightarrow> reply" where
  "requireSubscription requiredPlan req_user =
     (case req_user of
        None \<Rightarrow> Reply 401 ''Authentication required''
      | Some u \<Rightarrow>
          (let userPlan = subscription_plan u;
               requiredLevel = planHierarchy requiredPlan;
               userLevel = planHierarchy userPlan
           in if userLevel < requiredLevel
              then Reply 403 (plan_name requiredPlan @ '' subscription required'')
              else Next))"

text \<open>
  The contract of the specification, in its words: \<open>tierRank\<close> maps free to 1, pro to 2
  and enterprise to 3.
\<close>

fun tierRank :: "plan \<Rightarrow> nat" where
  "tierRank Free = 1"
| "tierRank Pro = 2"
| "tierRank Enterprise = 3"

subsection \<open>Projects (src/unnamed/part_000)\<close>

datatype role = Viewer | Editor | Admin

datatype status = Draft | In_progress | Completed | Archived

text \<open>An entry of \<^verbatim>\<open>collaborators\<close>: \<^verbatim>\<open>{ user, role, addedAt }\<close>.\<close>

record collaborator =
  c_user :: objectId
  c_role :: role
  addedAt :: date

text \<open>
  A value that the modelled operations only carry along (a nested settings object, a Mixed
  value) is kept as its JSON text, and an object of such values as an association list.
\<close>

type_synonym json = string
type_synonym obj = "(string \<times> json) list"

text \<open>
  A Project document. \<^verbatim>\<open>thumbnail\<close>, \<^verbatim>\<open>isTemplate\<close> and \<^verbatim>\<open>templateCategory\<close>, which no
  modelled operation reads or writes, are left out.
\<close>

record project =
  p_oid :: objectId
  p_name :: string
  p_description :: string
  owner :: objectId
  collaborators :: "collaborator list"
  p_settings :: obj
  p_tags :: "string list"
  p_isPublic :: bool
  p_status :: status
  lastModified :: date
  p_version :: int

text \<open>
  What Mongoose and the clock supply to a \<^verbatim>\<open>save()\<close>: \<^verbatim>\<open>this.isModified()\<close>,
  \<^verbatim>\<open>this.isNew\<close> and \<^verbatim>\<open>new Date()\<close>. Change tracking is the library's, so its verdict is
  an argument of the hook.
\<close>

record saveCtx =
  ctx_isModified :: bool
  ctx_isNew :: bool
  ctx_now :: date

text \<open>\<^verbatim>\<open>projectSchema.pre('save', ...)\<close>: "Update lastModified on save".\<close>

definition project_pre_save :: "saveCtx \<Rightarrow> project \<Rightarrow> project" where
  "project_pre_save ctx this =
     (if ctx_isModified ctx \<and> \<not> ctx_isNew ctx
      then this\<lparr>lastModified := ctx_now ctx, p_version := p_version this + 1\<rparr>
      else this)"

text \<open>\<^verbatim>\<open>this.save()\<close> of a project: the hook runs, the document is written.\<close>

definition project_save :: "saveCtx \<Rightarrow> project \<Rightarrow> project" where
  "project_save ctx this = project_pre_save ctx this"

text \<open>A document's save history: one \<^verbatim>\<open>save()\<close> after the other.\<close>

fun project_saves :: "saveCtx list \<Rightarrow> project \<Rightarrow> project" where
  "project_saves [] this = this"
| "project_saves (ctx # ctxs) this = project_saves ctxs (project_save ctx this)"

text \<open>\<^verbatim>\<open>const roleHierarchy = { viewer: 1, editor: 2, admin: 3 }\<close>\<close>

fun roleHierarchy :: "role \<Rightarrow> nat" where
  "roleHierarchy Viewer = 1"
| "roleHierarchy Editor = 2"
| "roleHierarchy Admin = 3"

text \<open>
  \<^verbatim>\<open>projectSchema.methods.hasAccess = function(userId, requiredRole = 'viewer')\<close>;
  \<^verbatim>\<open>Array.prototype.find\<close> returns the first entry of the user.
\<close>

definition hasAccess :: "project \<Rightarrow> objectId \<Rightarrow> role \<Rightarrow> bool" where
  "hasAccess this userId requiredRole =
     (if owner this = userId then True
      else (case find (\<lambda>c. c_user c = userId) (collaborators this) of
              None \<Rightarrow> False
            | Some collaborator \<Rightarrow>
                roleHierarchy (c_role collaborator) \<ge> roleHierarchy requiredRole))"

text \<open>
  \<^verbatim>\<open>existingCollaborator.role = role\<close> on the entry that \<^verbatim>\<open>find\<close> returned: the first entry
  of the user is changed where it stands.
\<close>

fun set_role_of_first :: "objectId \<Rightarrow> role \<Rightarrow> collaborator list \<Rightarrow> collaborator list" where
  "set_role_of_first userId r [] = []"
| "set_role_of_first userId r (c # cs) =
     (if c_user c = userId then c\<lparr>c_role := r\<rparr> # cs
      else c # set_role_of_first userId r cs)"

text \<open>
  \<^verbatim>\<open>projectSchema.methods.addCollaborator = function(userId, role = 'viewer')\<close>. A pushed
  entry gets \<^verbatim>\<open>addedAt\<close> from the schema default \<^verbatim>\<open>Date.now\<close>.
\<close>

definition addCollaborator :: "saveCtx \<Rightarrow> project \<Rightarrow> objectId \<Rightarrow> role \<Rightarrow> project" where
  "addCollaborator ctx this userId r =
     (case find (\<lambda>c. c_user c = userId) (collaborators this) of
        Some existingCollaborator \<Rightarrow>
          project_save ctx (this\<lparr>collaborators := set_role_of_first userId r (collaborators this)\<rparr>)
      | None \<Rightarrow>
          project_save ctx (this\<lparr>collaborators :=
             collaborators this @ [\<lparr>c_user = userId, c_role = r, addedAt = ctx_now ctx\<rparr>]\<rparr>))"

text \<open>\<^verbatim>\<open>projectSchema.methods.removeCollaborator = function(userId)\<close>\<close>

definition removeCollaborator :: "saveCtx \<Rightarrow> project \<Rightarrow> objectId \<Rightarrow> project" where
  "removeCollaborator ctx this userId =
     project_save ctx (this\<lparr>collaborators := filter (\<lambda>c. c_user c \<noteq> userId) (collaborators this)\<rparr>)"

subsection \<open>JavaScript numbers\<close>

text \<open>
  A \<^verbatim>\<open>Number\<close> is a finite double, an infinity or NaN. \<open>Fin r\<close> stands for the double of
  value \<open>r\<close>; the operations below return doubles when they are given doubles. The two
  zeros are not told apart: the hook adds to an accumulator that starts at \<^verbatim>\<open>0\<close>, and a
  sum or a difference of doubles is \<^verbatim>\<open>-0\<close> only when the accumulator already is, so no
  value that the hook stores depends on the sign of a zero.
\<close>

datatype number = Fin real | PInf | NInf | NaN

text \<open>The integer nearest to \<open>y\<close>, the even one of the two when \<open>y\<close> lies half way.\<close>

definition round_even :: "real \<Rightarrow> int" where
  "round_even y =
     (let f = \<lfloor>y\<rfloor>; d = y - of_int f
      in if d < 1 / 2 then f else if 1 / 2 < d then f + 1 else if even f then f else f + 1)"

text \<open>
  The spacing of the doubles around \<open>x\<close>: a double has 53 significant bits, so in the
  binade \<open>2^e \<le> |x| < 2^(e+1)\<close> the doubles are the multiples of \<open>2^(e-52)\<close>; below
  \<open>2^-1022\<close> (the subnormal range) they are the multiples of \<open>2^-1074\<close>.
\<close>

definition quantum :: "real \<Rightarrow> real" where
  "quantum x = 2 powi (max \<lfloor>log 2 \<bar>x\<bar>\<rfloor> (- 1022) - 52)"

text \<open>Rounding to nearest, ties to even, before the range check.\<close>

definition fl :: "real \<Rightarrow> real" where
  "fl x = (if x = 0 then 0 else quantum x * of_int (round_even (x / quantum x)))"

text \<open>The double that an exact result \<open>x\<close> is stored as: a result that rounds to
  \<open>2^1024\<close> or beyond overflows to an infinity.\<close>

definition rnd :: "real \<Rightarrow> number" where
  "rnd x = (let y = fl x
            in if 2 ^ 1024 \<le> y then PInf else if y \<le> - (2 ^ 1024) then NInf else Fin y)"

text \<open>\<^verbatim>\<open>x + y\<close>\<close>

fun num_add :: "number \<Rightarrow> number \<Rightarrow> number" where
  "num_add NaN y = NaN"
| "num_add x NaN = NaN"
| "num_add (Fin a) (Fin b) = rnd (a + b)"
| "num_add PInf NInf = NaN"
| "num_add NInf PInf = NaN"
| "num_add PInf y = PInf"
| "num_add x PInf = PInf"
| "num_add NInf y = NInf"
| "num_add x NInf = NInf"

fun num_neg :: "number \<Rightarrow> number" where
  "num_neg (Fin a) = Fin (- a)"
| "num_neg PInf = NInf"
| "num_neg NInf = PInf"
| "num_neg NaN = NaN"

text \<open>\<^verbatim>\<open>x - y\<close>, which IEEE 754 defines as \<^verbatim>\<open>x + (-y)\<close>.\<close>

definition num_sub :: "number \<Rightarrow> number \<Rightarrow> number" where
  "num_sub x y = num_add x (num_neg y)"

fun sign_inf :: "bool \<Rightarrow> number" where
  "sign_inf True = PInf"
| "sign_inf False = NInf"

text \<open>\<^verbatim>\<open>x * y\<close>\<close>

fun num_mul :: "number \<Rightarrow> number \<Rightarrow> number" where
  "num_mul NaN y = NaN"
| "num_mul x NaN = NaN"
| "num_mul (Fin a) (Fin b) = rnd (a * b)"
| "num_mul (Fin a) PInf = (if a = 0 then NaN else sign_inf (0 < a))"
| "num_mul (Fin a) NInf = (if a = 0 then NaN else sign_inf (a < 0))"
| "num_mul PInf (Fin b) = (if b = 0 then NaN else sign_inf (0 < b))"
| "num_mul NInf (Fin b) = (if b = 0 then NaN else sign_inf (b < 0))"
| "num_mul PInf PInf = PInf"
| "num_mul NInf NInf = PInf"
| "num_mul PInf NInf = NInf"
| "num_mul NInf PInf = NInf"

text \<open>\<^verbatim>\<open>Math.abs(x)\<close> and \<^verbatim>\<open>x / 2\<close>\<close>

fun num_abs :: "number \<Rightarrow> number" where
  "num_abs (Fin a) = Fin \<bar>a\<bar>"
| "num_abs PInf = PInf"
| "num_abs NInf = PInf"
| "num_abs NaN = NaN"

fun num_half :: "number \<Rightarrow> number" where
  "num_half (Fin a) = rnd (a / 2)"
| "num_half x = x"

text \<open>Whether a Number is truthy: \<^verbatim>\<open>0\<close> and \<^verbatim>\<open>NaN\<close> are not.\<close>

fun truthy :: "number \<Rightarrow> bool" where
  "truthy (Fin a) = (a \<noteq> 0)"
| "truthy NaN = False"
| "truthy x = True"

subsection \<open>JavaScript strings\<close>

text \<open>
  A string as the list of its UTF-16 code units, and the code units of an ASCII literal.
\<close>

type_synonym jsstring = "nat list"

definition str :: "string \<Rightarrow> jsstring" where
  "str s = map of_char s"

text \<open>
  The code units that \<^verbatim>\<open>String.prototype.trim\<close> strips (and that the \<^verbatim>\<open>\s\<close> of the
  validator's \<^verbatim>\<open>trim()\<close> matches): the WhiteSpace and LineTerminator code points of
  ECMAScript, that is TAB, LF, VT, FF, CR, SP, U+00A0, U+1680, U+2000 to U+200A, U+2028,
  U+2029, U+202F, U+205F, U+3000 and U+FEFF.
\<close>

definition is_space :: "nat \<Rightarrow> bool" where
  "is_space c =
     (c \<in> set [0x09, 0x0A, 0x0B, 0x0C, 0x0D, 0x20, 0xA0, 0x1680, 0x2028, 0x2029, 0x202F,
               0x205F, 0x3000, 0xFEFF]
      \<or> (0x2000 \<le> c \<and> c \<le> 0x200A))"

definition trim :: "jsstring \<Rightarrow> jsstring" where
  "trim s = rev (dropWhile is_space (rev (dropWhile is_space s)))"

subsection \<open>Designs (src/unnamed/part_001)\<close>

text \<open>\<^verbatim>\<open>wallPointSchema\<close>, and \<^verbatim>\<open>positionSchema\<close>/\<^verbatim>\<open>rotationSchema\<close>/\<^verbatim>\<open>scaleSchema\<close>.\<close>

record wallPoint =
  pt_x :: number
  pt_y :: number

record vec3 =
  v_x :: number
  v_y :: number
  v_z :: number

datatype furnitureCategory = Seating | Tables | Storage | Lighting | Bedroom | Decorative

text \<open>
  \<^verbatim>\<open>furnitureItemSchema\<close>, declared with the option \<^verbatim>\<open>{ _id: false }\<close>: an item has the
  string field \<^verbatim>\<open>id\<close> and no \<^verbatim>\<open>_id\<close>. \<^verbatim>\<open>price\<close> is absent (\<open>None\<close>) when it was
  stored as null.
\<close>

record furnitureItem =
  f_id :: string
  f_name :: jsstring
  f_category :: furnitureCategory
  f_type :: string
  price :: "number option"
  color :: string
  position :: vec3
  rotation :: vec3
  scale :: vec3
  customProperties :: obj

datatype wallType = Wall | Room

text \<open>\<^verbatim>\<open>wallSchema\<close>, used for \<^verbatim>\<open>elements.walls\<close> and \<^verbatim>\<open>elements.rooms\<close>.\<close>

record wall =
  w_id :: string
  w_type :: wallType
  w_color :: string
  points :: "wallPoint list"
  completed :: bool
  thickness :: number
  height :: number

record elements =
  walls :: "wall list"
  windows :: json
  rooms :: "wall list"

record metadata =
  totalArea :: number
  totalCost :: number
  furnitureCount :: nat
  lastRendered :: "date option"

text \<open>
  The nested paths \<^verbatim>\<open>settings\<close> and \<^verbatim>\<open>environment\<close> of the schema. Mongoose stores the
  paths that the schema declares and drops every other key. A key of \<^verbatim>\<open>lighting\<close> is
  absent (\<open>None\<close>) after an update that replaced \<^verbatim>\<open>lighting\<close> by an object without it.
\<close>

datatype activeMode = Mode_2D | Mode_3D

record settings =
  gridVisible :: bool
  snapToGrid :: bool
  showMeasurements :: bool
  zoomLevel :: number
  activeMode :: activeMode

record lighting =
  ambientIntensity :: "number option"
  directionalIntensity :: "number option"
  pointIntensity :: "number option"

datatype background = City | Studio | Outdoor | Custom

record environment =
  lighting :: lighting
  background :: background
  customBackground :: "string option"

text \<open>
  A Design document. \<^verbatim>\<open>version\<close> is a String with default \<^verbatim>\<open>'1.0.0'\<close>. \<^verbatim>\<open>isTemplate\<close>,
  \<^verbatim>\<open>templateCategory\<close>, \<^verbatim>\<open>thumbnail\<close> and \<^verbatim>\<open>renderImages\<close> are left out; \<^verbatim>\<open>layers\<close> and
  \<^verbatim>\<open>camera\<close> are carried as the JSON text of the value that Mongoose stores.
\<close>

record design =
  d_oid :: objectId
  d_project :: objectId
  d_name :: jsstring
  d_description :: jsstring
  d_version :: string
  d_settings :: settings
  d_elements :: elements
  furniture :: "furnitureItem list"
  layers :: json
  camera :: json
  d_environment :: environment
  d_metadata :: metadata
  d_isPublic :: bool
  d_tags :: "jsstring list"
  d_status :: status

text \<open>
  The first part of \<^verbatim>\<open>designSchema.pre('save', ...)\<close>:
  \<^verbatim>\<open>this.furniture.reduce((total, item) => total + (item.price || 0), 0)\<close>. The operand
  \<^verbatim>\<open>item.price || 0\<close> is the price when it is present and truthy, and \<^verbatim>\<open>0\<close> otherwise.
\<close>

definition price_or_0 :: "furnitureItem \<Rightarrow> number" where
  "price_or_0 item =
     (case price item of Some p \<Rightarrow> if truthy p then p else Fin 0 | None \<Rightarrow> Fin 0)"

definition reduce_totalCost :: "furnitureItem list \<Rightarrow> number" where
  "reduce_totalCost fs = foldl (\<lambda>total item. num_add total (price_or_0 item)) (Fin 0) fs"

text \<open>
  The inner loop of the hook ("Simple polygon area calculation"):
  \<^verbatim>\<open>for (let i = 0; i < n; i++) { const j = (i + 1) % n;
    area += p[i].x * p[j].y; area -= p[j].x * p[i].y; }\<close>
  Both indices stay below \<open>n\<close>, so no read is out of range. Each product and each
  update of \<^verbatim>\<open>area\<close> is rounded.
\<close>

definition polygon_step :: "wallPoint list \<Rightarrow> number \<Rightarrow> nat \<Rightarrow> number" where
  "polygon_step p area i =
     (let j = (i + 1) mod length p;
          area1 = num_add area (num_mul (pt_x (p ! i)) (pt_y (p ! j)))
      in num_sub area1 (num_mul (pt_x (p ! j)) (pt_y (p ! i))))"

definition polygon_loop :: "wallPoint list \<Rightarrow> number" where
  "polygon_loop p = foldl (polygon_step p) (Fin 0) [0..<length p]"

text \<open>
  The \<^verbatim>\<open>forEach\<close> over \<^verbatim>\<open>this.elements.rooms\<close>: a room with fewer than three points is
  skipped, another room adds \<^verbatim>\<open>Math.abs(area) / 2\<close>.
\<close>

definition forEach_totalArea :: "wall list \<Rightarrow> number" where
  "forEach_totalArea rs =
     foldl (\<lambda>totalArea room.
              if length (points room) \<ge> 3
              then num_add totalArea (num_half (num_abs (polygon_loop (points room))))
              else totalArea) (Fin 0) rs"

text \<open>\<^verbatim>\<open>designSchema.pre('save', ...)\<close>: "Calculate metadata before saving".\<close>

definition design_pre_save :: "design \<Rightarrow> design" where
  "design_pre_save this =
     this\<lparr>d_metadata := (d_metadata this)
        \<lparr>totalCost := reduce_totalCost (furniture this),
         furnitureCount := length (furniture this),
         totalArea := forEach_totalArea (rooms (d_elements this))\<rparr>\<rparr>"

subsection \<open>Schema validation and \<^verbatim>\<open>save()\<close> of a design\<close>

text \<open>
  The validators the schema declares on the modelled paths: \<^verbatim>\<open>required\<close> (an empty
  string fails it) and \<^verbatim>\<open>maxlength\<close>, which compares \<^verbatim>\<open>value.length\<close>, the number of
  code units. An enum is a datatype of the model, so its validator always passes. The
  schema option \<^verbatim>\<open>trim: true\<close> applies \<open>trim\<close> when a value is set.
\<close>

definition name_ok :: "jsstring \<Rightarrow> bool" where
  "name_ok n = (n \<noteq> [] \<and> length n \<le> 100)"

definition description_ok :: "jsstring \<Rightarrow> bool" where
  "description_ok n = (length n \<le> 500)"

definition tags_ok :: "jsstring list \<Rightarrow> bool" where
  "tags_ok ts = list_all (\<lambda>t. length t \<le> 30) ts"

definition furniture_ok :: "furnitureItem list \<Rightarrow> bool" where
  "furniture_ok fs = list_all (\<lambda>f. f_id f \<noteq> [] \<and> f_name f \<noteq> [] \<and> f_type f \<noteq> []) fs"

definition elements_ok :: "elements \<Rightarrow> bool" where
  "elements_ok e = (list_all (\<lambda>w. w_id w \<noteq> []) (walls e) \<and> list_all (\<lambda>w. w_id w \<noteq> []) (rooms e))"

definition design_validate :: "design \<Rightarrow> bool" where
  "design_validate d =
     (name_ok (d_name d) \<and> description_ok (d_description d) \<and> tags_ok (d_tags d)
      \<and> furniture_ok (furniture d) \<and> elements_ok (d_elements d))"

datatype error = ValidationError | Furniture_not_found

text \<open>
  \<^verbatim>\<open>design.save()\<close>: Mongoose validates the document, then runs the \<^verbatim>\<open>pre('save')\<close> hook
  and writes the document. A failed validation rejects, and nothing is written.
\<close>

definition design_save :: "design \<Rightarrow> error + design" where
  "design_save this =
     (if design_validate this then Inr (design_pre_save this) else Inl ValidationError)"

subsection \<open>Furniture of a design\<close>

text \<open>
  \<^verbatim>\<open>MongooseDocumentArray.prototype.id(id)\<close> of the library: it searches the array for the
  first sub-document whose \<^verbatim>\<open>_id\<close> equals \<open>id\<close>, skips a sub-document that has no
  \<^verbatim>\<open>_id\<close>, and returns null when there is none. \<open>get_oid\<close> reads the \<^verbatim>\<open>_id\<close> of an item.
\<close>

definition DocumentArray_id :: "('a \<Rightarrow> string option) \<Rightarrow> 'a list \<Rightarrow> string \<Rightarrow> 'a option" where
  "DocumentArray_id get_oid arr i = find (\<lambda>val. get_oid val = Some i) arr"

text \<open>
  The \<^verbatim>\<open>_id\<close> of a furniture item: \<^verbatim>\<open>furnitureItemSchema\<close> is declared with
  \<^verbatim>\<open>{ _id: false }\<close> (part_001, line 65), so no item has one.
\<close>

definition furnitureItem_oid :: "furnitureItem \<Rightarrow> string option" where
  "furnitureItem_oid f = None"

text \<open>
  \<^verbatim>\<open>updateData\<close> of the furniture route is the request body; a key that is not a path of
  the schema is dropped by Mongoose. An absent key is \<open>None\<close>.
\<close>

record furniturePatch =
  up_id :: "string option"
  up_name :: "jsstring option"
  up_category :: "furnitureCategory option"
  up_type :: "string option"
  up_price :: "number option option"
  up_color :: "string option"
  up_position :: "vec3 option"
  up_rotation :: "vec3 option"
  up_scale :: "vec3 option"
  up_customProperties :: "obj option"

definition or_keep :: "'a option \<Rightarrow> 'a \<Rightarrow> 'a" where
  "or_keep new old = (case new of Some v \<Rightarrow> v | None \<Rightarrow> old)"

text \<open>\<^verbatim>\<open>Object.assign(furniture, updateData)\<close>\<close>

definition Object_assign :: "furnitureItem \<Rightarrow> furniturePatch \<Rightarrow> furnitureItem" where
  "Object_assign f u =
     \<lparr>f_id = or_keep (up_id u) (f_id f),
      f_name = or_keep (map_option trim (up_name u)) (f_name f),
      f_category = or_keep (up_category u) (f_category f),
      f_type = or_keep (up_type u) (f_type f),
      price = or_keep (up_price u) (price f),
      color = or_keep (up_color u) (color f),
      position = or_keep (up_position u) (position f),
      rotation = or_keep (up_rotation u) (rotation f),
      scale = or_keep (up_scale u) (scale f),
      customProperties = or_keep (up_customProperties u) (customProperties f)\<rparr>"

text \<open>Changing the first element that satisfies \<open>P\<close> where it stands.\<close>

fun update_first :: "('a \<Rightarrow> bool) \<Rightarrow> ('a \<Rightarrow> 'a) \<Rightarrow> 'a list \<Rightarrow> 'a list" where
  "update_first P f [] = []"
| "update_first P f (x # xs) = (if P x then f x # xs else x # update_first P f xs)"

text \<open>
  \<^verbatim>\<open>designSchema.methods.updateFurniture = function(furnitureId, updateData)\<close>: the
  \<^verbatim>\<open>throw new Error('Furniture not found')\<close> is \<open>Inl Furniture_not_found\<close>.
\<close>

definition updateFurniture :: "design \<Rightarrow> string \<Rightarrow> furniturePatch \<Rightarrow> error + design" where
  "updateFurniture this furnitureId updateData =
     (case DocumentArray_id furnitureItem_oid (furniture this) furnitureId of
        Some f \<Rightarrow>
          design_save (this\<lparr>furniture :=
             update_first (\<lambda>val. furnitureItem_oid val = Some furnitureId)
               (\<lambda>val. Object_assign val updateData) (furniture this)\<rparr>)
      | None \<Rightarrow> Inl Furniture_not_found)"

text \<open>\<^verbatim>\<open>designSchema.methods.removeFurniture = function(furnitureId)\<close>\<close>

definition removeFurniture :: "design \<Rightarrow> string \<Rightarrow> error + design" where
  "removeFurniture this furnitureId =
     design_save (this\<lparr>furniture := filter (\<lambda>f. f_id f \<noteq> furnitureId) (furniture this)\<rparr>)"

subsection \<open>The document store and the middleware\<close>

record store =
  projects :: "project list"
  designs :: "design list"

datatype http_method = GET | POST | PUT | DELETE

text \<open>
  \<^verbatim>\<open>requireOwnershipOrCollaboration(Project, 'id')\<close> of src/middleware/auth.js. The second
  component is \<^verbatim>\<open>req.resource\<close>. The requests of the model carry a well-formed ObjectId
  (another one makes \<^verbatim>\<open>findById\<close> throw, and the middleware answer 500).
\<close>

definition requireOwnershipOrCollaboration ::
  "project list \<Rightarrow> user option \<Rightarrow> http_method \<Rightarrow> objectId \<Rightarrow> reply \<times> project option" where
  "requireOwnershipOrCollaboration ps req_user req_method resourceId =
     (case req_user of
        None \<Rightarrow> (Reply 401 ''Authentication required'', None)
      | Some u \<Rightarrow>
          (case find (\<lambda>p. p_oid p = resourceId) ps of
             None \<Rightarrow> (Reply 404 ''Resource not found'', None)
           | Some resource \<Rightarrow>
               if owner resource = u_oid u then (Next, Some resource)
               else if length (collaborators resource) > 0
                       \<and> list_ex (\<lambda>collab. c_user collab = u_oid u) (collaborators resource)
                 then (Next, Some resource)
               else if req_method = GET \<and> p_isPublic resource then (Next, Some resource)
               else (Reply 403 ''Access denied'', None)))"

text \<open>\<^verbatim>\<open>Model.findByIdAndDelete(id)\<close>: the first document with that \<^verbatim>\<open>_id\<close> goes.\<close>

fun findByIdAndDelete :: "('a \<Rightarrow> objectId) \<Rightarrow> objectId \<Rightarrow> 'a list \<Rightarrow> 'a list" where
  "findByIdAndDelete oid_of i [] = []"
| "findByIdAndDelete oid_of i (x # xs) =
     (if oid_of x = i then xs else x # findByIdAndDelete oid_of i xs)"

text \<open>
  \<^verbatim>\<open>router.delete('/:id', [authenticateToken, requireOwnershipOrCollaboration(Project, 'id')], ...)\<close>
  of src/routes/projects.js. \<^verbatim>\<open>authenticateToken\<close> answers 401 when no identity resolves.
\<close>

definition delete_project :: "store \<Rightarrow> user option \<Rightarrow> objectId \<Rightarrow> reply \<times> store" where
  "delete_project s req_user req_id =
     (case req_user of
        None \<Rightarrow> (Reply 401 ''Access token required'', s)
      | Some u \<Rightarrow>
          (case requireOwnershipOrCollaboration (projects s) req_user DELETE req_id of
             (Next, Some resource) \<Rightarrow>
               if owner resource \<noteq> u_oid u
               then (Reply 403 ''Only project owners can delete projects'', s)
               else (Reply 200 ''Project deleted successfully'',
                     s\<lparr>designs := filter (\<lambda>d. d_project d \<noteq> req_id) (designs s),
                       projects := findByIdAndDelete p_oid req_id (projects s)\<rparr>)
           | (r, _) \<Rightarrow> (r, s)))"

subsection \<open>Design routes (src/routes/designs.js)\<close>

text \<open>
  The access expression of the routes that change a design (PUT and DELETE of a design,
  POST, PUT and DELETE of its furniture): the owner, or a collaborator entry of the user
  with \<^verbatim>\<open>['editor', 'admin'].includes(collab.role)\<close>.
\<close>

definition canEditDesign :: "project \<Rightarrow> user \<Rightarrow> bool" where
  "canEditDesign project u =
     (owner project = u_oid u
      \<or> list_ex (\<lambda>collab. c_user collab = u_oid u \<and> c_role collab \<in> set [Editor, Admin])
           (collaborators project))"

text \<open>
  The access expression of the routes that read or duplicate a design: the owner, any
  collaborator entry of the user, or \<^verbatim>\<open>design.isPublic\<close>.
\<close>

definition canReadDesign :: "project \<Rightarrow> design \<Rightarrow> user \<Rightarrow> bool" where
  "canReadDesign project design u =
     (owner project = u_oid u
      \<or> list_ex (\<lambda>collab. c_user collab = u_oid u) (collaborators project)
      \<or> d_isPublic design)"

text \<open>
  The keys of \<^verbatim>\<open>settings\<close> and \<^verbatim>\<open>environment\<close> in a request body that are paths of the
  schema; an absent key is \<open>None\<close>, and a \<^verbatim>\<open>customBackground: null\<close> is \<open>Some None\<close>.
\<close>

record settingsPatch =
  sp_gridVisible :: "bool option"
  sp_snapToGrid :: "bool option"
  sp_showMeasurements :: "bool option"
  sp_zoomLevel :: "number option"
  sp_activeMode :: "activeMode option"

record environmentPatch =
  ep_lighting :: "lighting option"
  ep_background :: "background option"
  ep_customBackground :: "string option option"

text \<open>
  The spreads \<^verbatim>\<open>{ ...design.settings, ...settings }\<close> and
  \<^verbatim>\<open>{ ...design.environment, ...environment }\<close>: a key of the body wins, and the spread
  is shallow, so a \<^verbatim>\<open>lighting\<close> of the body replaces the stored one as a whole.
\<close>

definition spread_settings :: "settings \<Rightarrow> settingsPatch \<Rightarrow> settings" where
  "spread_settings a b =
     \<lparr>gridVisible = or_keep (sp_gridVisible b) (gridVisible a),
      snapToGrid = or_keep (sp_snapToGrid b) (snapToGrid a),
      showMeasurements = or_keep (sp_showMeasurements b) (showMeasurements a),
      zoomLevel = or_keep (sp_zoomLevel b) (zoomLevel a),
      activeMode = or_keep (sp_activeMode b) (activeMode a)\<rparr>"

definition spread_environment :: "environment \<Rightarrow> environmentPatch \<Rightarrow> environment" where
  "spread_environment a b =
     \<lparr>lighting = or_keep (ep_lighting b) (lighting a),
      background = or_keep (ep_background b) (background a),
      customBackground = or_keep (ep_customBackground b) (customBackground a)\<rparr>"

text \<open>The body of \<^verbatim>\<open>PUT /api/designs/:id\<close>; a key that is \<^verbatim>\<open>undefined\<close> is \<open>None\<close>.\<close>

record designBody =
  b_name :: "jsstring option"
  b_description :: "jsstring option"
  b_settings :: "settingsPatch option"
  b_elements :: "elements option"
  b_furniture :: "furnitureItem list option"
  b_layers :: "json option"
  b_camera :: "json option"
  b_environment :: "environmentPatch option"
  b_status :: "status option"
  b_tags :: "jsstring list option"

text \<open>
  \<^verbatim>\<open>updateData\<close> as the handler builds it, applied to the stored document by
  \<^verbatim>\<open>Design.findByIdAndUpdate(id, updateData, { new: true, runValidators: true })\<close>: the
  paths of \<^verbatim>\<open>updateData\<close> are set, every other path keeps its stored value. An update
  query runs no \<^verbatim>\<open>save\<close> middleware, so \<open>design_pre_save\<close> is not part of it.
\<close>

definition apply_updateData :: "designBody \<Rightarrow> design \<Rightarrow> design" where
  "apply_updateData b design =
     design\<lparr>d_name := or_keep (map_option trim (b_name b)) (d_name design),
            d_description := or_keep (map_option trim (b_description b)) (d_description design),
            d_settings := (case b_settings b of Some x \<Rightarrow> spread_settings (d_settings design) x
                           | None \<Rightarrow> d_settings design),
            d_elements := or_keep (b_elements b) (d_elements design),
            furniture := or_keep (b_furniture b) (furniture design),
            layers := or_keep (b_layers b) (layers design),
            camera := or_keep (b_camera b) (camera design),
            d_environment := (case b_environment b of
                                Some x \<Rightarrow> spread_environment (d_environment design) x
                              | None \<Rightarrow> d_environment design),
            d_status := or_keep (b_status b) (d_status design),
            d_tags := or_keep (map_option (map trim) (b_tags b)) (d_tags design)\<rparr>"

text \<open>\<^verbatim>\<open>runValidators: true\<close>: the validators of the paths that the update sets.\<close>

definition update_validate :: "designBody \<Rightarrow> bool" where
  "update_validate b =
     ((case b_name b of Some n \<Rightarrow> name_ok (trim n) | None \<Rightarrow> True)
      \<and> (case b_description b of Some n \<Rightarrow> description_ok (trim n) | None \<Rightarrow> True)
      \<and> (case b_tags b of Some ts \<Rightarrow> tags_ok (map trim ts) | None \<Rightarrow> True)
      \<and> (case b_furniture b of Some fs \<Rightarrow> furniture_ok fs | None \<Rightarrow> True)
      \<and> (case b_elements b of Some e \<Rightarrow> elements_ok e | None \<Rightarrow> True))"

text \<open>
  \<^verbatim>\<open>router.put('/:id', [authenticateToken], ...)\<close>. The design is loaded with its project
  populated; a design whose project is gone has \<^verbatim>\<open>design.project === null\<close>, reading
  \<^verbatim>\<open>project.owner\<close> throws and the handler answers 500.
\<close>

definition put_design :: "store \<Rightarrow> user option \<Rightarrow> objectId \<Rightarrow> designBody \<Rightarrow> reply \<times> store" where
  "put_design s req_user req_id body =
     (case req_user of
        None \<Rightarrow> (Reply 401 ''Access token required'', s)
      | Some u \<Rightarrow>
          (case find (\<lambda>d. d_oid d = req_id) (designs s) of
             None \<Rightarrow> (Reply 404 ''Design not found'', s)
           | Some design \<Rightarrow>
               (case find (\<lambda>p. p_oid p = d_project design) (projects s) of
                  None \<Rightarrow> (Reply 500 ''Server error while updating design'', s)
                | Some project \<Rightarrow>
                    if \<not> canEditDesign project u then (Reply 403 ''Access denied'', s)
                    else if \<not> update_validate body
                      then (Reply 500 ''Server error while updating design'', s)
                    else (Reply 200 ''Design updated successfully'',
                          s\<lparr>designs := update_first (\<lambda>d. d_oid d = req_id)
                                           (apply_updateData body) (designs s)\<rparr>))))"

text \<open>
  \<^verbatim>\<open>router.put('/:id/furniture/:furnitureId', [authenticateToken], ...)\<close>: the error of
  \<open>updateFurniture\<close> with the message \<^verbatim>\<open>'Furniture not found'\<close> becomes a 404, another
  rejection a 500.
\<close>

definition put_furniture ::
  "store \<Rightarrow> user option \<Rightarrow> objectId \<Rightarrow> string \<Rightarrow> furniturePatch \<Rightarrow> reply \<times> store" where
  "put_furniture s req_user req_id furnitureId updateData =
     (case req_user of
        None \<Rightarrow> (Reply 401 ''Access token required'', s)
      | Some u \<Rightarrow>
          (case find (\<lambda>d. d_oid d = req_id) (designs s) of
             None \<Rightarrow> (Reply 404 ''Design not found'', s)
           | Some design \<Rightarrow>
               (case find (\<lambda>p. p_oid p = d_project design) (projects s) of
                  None \<Rightarrow> (Reply 500 ''Server error while updating furniture'', s)
                | Some project \<Rightarrow>
                    if \<not> canEditDesign project u then (Reply 403 ''Access denied'', s)
                    else
                      (case updateFurniture design furnitureId updateData of
                         Inl Furniture_not_found \<Rightarrow> (Reply 404 ''Furniture not found'', s)
                       | Inl ValidationError \<Rightarrow>
                           (Reply 500 ''Server error while updating furniture'', s)
                       | Inr saved \<Rightarrow>
                           (Reply 200 ''Furniture updated successfully'',
                            s\<lparr>designs := update_first (\<lambda>d. d_oid d = req_id)
                                             (\<lambda>d. saved) (designs s)\<rparr>)))))"

text \<open>
  The name of the copy in \<^verbatim>\<open>POST /api/designs/:id/duplicate\<close>:
  \<^verbatim>\<open>name || `${design.name} (Copy)`\<close>, where \<^verbatim>\<open>name\<close> is \<^verbatim>\<open>req.body.name\<close> after the sanitizer
  \<^verbatim>\<open>trim()\<close> of the validator chain (an empty string is falsy), set on the new document
  through the schema's \<^verbatim>\<open>trim: true\<close>.
\<close>

definition copy_name :: "design \<Rightarrow> jsstring option \<Rightarrow> jsstring" where
  "copy_name design body_name =
     (let name = map_option trim body_name
      in trim (case name of
                 Some n \<Rightarrow> if n \<noteq> [] then n else d_name design @ str '' (Copy)''
               | None \<Rightarrow> d_name design @ str '' (Copy)''))"

text \<open>
  \<^verbatim>\<open>router.post('/:id/duplicate', [authenticateToken, body('name').optional().trim()...], ...)\<close>.
  The handler never reads \<^verbatim>\<open>validationResult\<close>, so of the validator chain only the
  sanitizer \<^verbatim>\<open>trim()\<close> has an effect. \<open>new_oid\<close> is the ObjectId that \<^verbatim>\<open>new Design\<close>
  generates. The paths the handler does not pass (\<^verbatim>\<open>metadata\<close>, \<^verbatim>\<open>isPublic\<close>, \<^verbatim>\<open>tags\<close>)
  take their schema defaults. \<^verbatim>\<open>project: design.project\<close> is the populated project,
  which Mongoose casts to its \<^verbatim>\<open>_id\<close>.
\<close>

definition duplicate_design ::
  "store \<Rightarrow> user option \<Rightarrow> objectId \<Rightarrow> jsstring option \<Rightarrow> objectId \<Rightarrow> reply \<times> store" where
  "duplicate_design s req_user req_id body_name new_oid =
     (case req_user of
        None \<Rightarrow> (Reply 401 ''Access token required'', s)
      | Some u \<Rightarrow>
          (case find (\<lambda>d. d_oid d = req_id) (designs s) of
             None \<Rightarrow> (Reply 404 ''Design not found'', s)
           | Some design \<Rightarrow>
               (case find (\<lambda>p. p_oid p = d_project design) (projects s) of
                  None \<Rightarrow> (Reply 500 ''Server error while duplicating design'', s)
                | Some project \<Rightarrow>
                    if \<not> canReadDesign project design u then (Reply 403 ''Access denied'', s)
                    else
                      (let newDesign =
                             \<lparr>d_oid = new_oid,
                              d_project = p_oid project,
                              d_name = copy_name design body_name,
                              d_description = d_description design,
                              d_version = ''1.0.0'',
                              d_settings = d_settings design,
                              d_elements = d_elements design,
                              furniture = furniture design,
                              layers = layers design,
                              camera = camera design,
                              d_environment = d_environment design,
                              d_metadata = \<lparr>totalArea = Fin 0, totalCost = Fin 0,
                                            furnitureCount = 0, lastRendered = None\<rparr>,
                              d_isPublic = False,
                              d_tags = [],
                              d_status = Draft\<rparr>
                       in (case design_save newDesign of
                             Inl e \<Rightarrow> (Reply 500 ''Server error while duplicating design'', s)
                           | Inr saved \<Rightarrow>
                               (Reply 201 ''Design duplicated successfully'',
                                s\<lparr>designs := designs s @ [saved]\<rparr>))))))"

subsection \<open>The template catalogue (template router of src/routes/ai-tools.js)\<close>

text \<open>
  The value that \<^verbatim>\<open>GET /api/templates\<close> gives the key \<^verbatim>\<open>'requirements.subscription'\<close> of
  its query ("Filter by user subscription"): \<open>Some ps\<close> for \<^verbatim>\<open>{ $in: ps }\<close> (and for the
  plain \<^verbatim>\<open>'free'\<close>), \<open>None\<close> when the key is not set.
\<close>

definition subscription_filter :: "user option \<Rightarrow> plan list option" where
  "subscription_filter req_user =
     (case req_user of
        Some u \<Rightarrow>
          (let userPlan = subscription_plan u
           in if userPlan = Free then Some [Free]
              else if userPlan = Pro then Some [Free, Pro]
              else None)
      | None \<Rightarrow> Some [Free])"

text \<open>
  Whether a template matches the query of the route. No later statement of the handler
  writes the keys \<^verbatim>\<open>isActive\<close> and \<^verbatim>\<open>'requirements.subscription'\<close> again; the other keys
  (\<^verbatim>\<open>$text\<close>, \<^verbatim>\<open>category\<close>, \<^verbatim>\<open>subcategory\<close>, \<^verbatim>\<open>difficulty\<close>, \<^verbatim>\<open>style\<close>, \<^verbatim>\<open>isFeatured\<close>,
  \<^verbatim>\<open>isPremium\<close>, \<^verbatim>\<open>tags\<close>, \<^verbatim>\<open>'metadata.totalArea'\<close>) are the predicate \<open>others\<close>.
\<close>

definition query_matches :: "user option \<Rightarrow> (template \<Rightarrow> bool) \<Rightarrow> template \<Rightarrow> bool" where
  "query_matches req_user others t =
     (t_isActive t
      \<and> (case subscription_filter req_user of
            Some ps \<Rightarrow> requirements_subscription t \<in> set ps
          | None \<Rightarrow> True)
      \<and> others t)"

text \<open>
  \<^verbatim>\<open>Template.find(query).sort(sort).skip(skip).limit(limit)\<close> and
  \<^verbatim>\<open>Template.countDocuments(query)\<close>. \<open>in_order\<close> is the order in which the store returns
  the matching documents for the requested sort.
\<close>

definition list_templates ::
  "template list \<Rightarrow> user option \<Rightarrow> (template \<Rightarrow> bool) \<Rightarrow> (template list \<Rightarrow> template list)
     \<Rightarrow> nat \<Rightarrow> nat \<Rightarrow> template list \<times> nat" where
  "list_templates coll req_user others in_order page limit =
     (let skip = (page - 1) * limit;
          found = filter (query_matches req_user others) coll
      in (take limit (drop skip (in_order found)), length found))"

text \<open>
  The other listings of the template router. Their handlers carry no \<^verbatim>\<open>optionalAuth\<close>,
  so they have no identity to read, and the statics of the model that they call query
  with \<^verbatim>\<open>isActive: true\<close> and the key of the listing only:
  \<^verbatim>\<open>templateSchema.statics.getFeatured\<close>, \<^verbatim>\<open>getByCategory\<close>, \<^verbatim>\<open>getByStyle\<close> and \<^verbatim>\<open>search\<close>.
  \<open>in_order\<close> is again the order of the store for the sort of the static, and
  \<open>text_match\<close> the documents that the \<^verbatim>\<open>$text\<close> search of the store matches.
\<close>

definition getFeatured :: "template list \<Rightarrow> (template list \<Rightarrow> template list) \<Rightarrow> nat \<Rightarrow> template list" where
  "getFeatured coll in_order limit =
     take limit (in_order (filter (\<lambda>t. t_isActive t \<and> t_isFeatured t) coll))"

definition getByCategory ::
  "template list \<Rightarrow> (template list \<Rightarrow> template list) \<Rightarrow> string \<Rightarrow> nat \<Rightarrow> nat \<Rightarrow> template list" where
  "getByCategory coll in_order category limit skip =
     take limit (drop skip (in_order (filter (\<lambda>t. t_category t = category \<and> t_isActive t) coll)))"

definition getByStyle ::
  "template list \<Rightarrow> (template list \<Rightarrow> template list) \<Rightarrow> string \<Rightarrow> nat \<Rightarrow> nat \<Rightarrow> template list" where
  "getByStyle coll in_order style limit skip =
     take limit (drop skip (in_order (filter (\<lambda>t. t_style t = style \<and> t_isActive t) coll)))"

definition search_templates ::
  "template list \<Rightarrow> (template list \<Rightarrow> template list) \<Rightarrow> (template \<Rightarrow> bool) \<Rightarrow> template list" where
  "search_templates coll in_order text_match =
     in_order (filter (\<lambda>t. t_isActive t \<and> text_match t) coll)"

text \<open>
  The handlers registered for \<^verbatim>\<open>GET /api/templates/featured\<close>,
  \<^verbatim>\<open>GET /api/templates/category/:category\<close>, \<^verbatim>\<open>GET /api/templates/style/:style\<close> and
  \<^verbatim>\<open>GET /api/templates/search\<close>: the templates of the reply and, where the handler
  counts, the total. \<open>page\<close> and \<open>limit\<close> are the numbers that the handler parses from a
  query that passed its validators (\<open>page\<close> at least 1, \<open>limit\<close> from 1 to 100), with
  the defaults 1 and 20 (10 for the featured templates). The paths with two segments,
  by category and by style, reach their handlers. The router registers \<^verbatim>\<open>GET /:id\<close>
  before \<^verbatim>\<open>/featured\<close> and \<^verbatim>\<open>/search\<close>, and Express tries the routes in the order of
  registration, so the handlers of these two are behind the one of \<^verbatim>\<open>/:id\<close>.
\<close>

definition get_featured :: "template list \<Rightarrow> (template list \<Rightarrow> template list) \<Rightarrow> nat \<Rightarrow> template list" where
  "get_featured coll in_order limit = getFeatured coll in_order limit"

definition get_by_category ::
  "template list \<Rightarrow> (template list \<Rightarrow> template list) \<Rightarrow> string \<Rightarrow> nat \<Rightarrow> nat
     \<Rightarrow> template list \<times> nat" where
  "get_by_category coll in_order category page limit =
     (let skip = (page - 1) * limit
      in (getByCategory coll in_order category limit skip,
          length (filter (\<lambda>t. t_category t = category \<and> t_isActive t) coll)))"

definition get_by_style ::
  "template list \<Rightarrow> (template list \<Rightarrow> template list) \<Rightarrow> string \<Rightarrow> nat \<Rightarrow> nat
     \<Rightarrow> template list \<times> nat" where
  "get_by_style coll in_order style page limit =
     (let skip = (page - 1) * limit
      in (getByStyle coll in_order style limit skip,
          length (filter (\<lambda>t. t_style t = style \<and> t_isActive t) coll)))"

definition get_search ::
  "template list \<Rightarrow> (template list \<Rightarrow> template list) \<Rightarrow> (template \<Rightarrow> bool) \<Rightarrow> nat \<Rightarrow> nat
     \<Rightarrow> template list \<times> nat" where
  "get_search coll in_order text_match page limit =
     (let skip = (page - 1) * limit
      in (take limit (drop skip (search_templates coll in_order text_match)),
          length (filter (\<lambda>t. text_match t \<and> t_isActive t) coll)))"

text \<open>
  The visible-tier set of the specification: the tiers that the identity's plan can
  access, and the free tier alone when no identity is attached.
\<close>

definition visible_tiers :: "user option \<Rightarrow> plan set" where
  "visible_tiers req_user =
     (case req_user of
        Some u \<Rightarrow> {tier. tierRank (subscription_plan u) \<ge> tierRank tier}
      | None \<Rightarrow> {Free})"

subsection \<open>The area formula of the specification\<close>



text \<open>Points with integer coordinates, as documents and as pairs of reals.\<close>

definition int_points :: "(int \<times> int) list \<Rightarrow> wallPoint list" where
  "int_points ps = map (\<lambda>(a, b). \<lparr>pt_x = Fin (of_int a), pt_y = Fin (of_int b)\<rparr>) ps"





text \<open>Integer prices, an absent price being \<open>None\<close>, and what they add up to.\<close>

definition int_prices :: "int option list \<Rightarrow> number option list" where
  "int_prices ns = map (map_option (\<lambda>n. Fin (of_int n))) ns"

definition price_total :: "int option list \<Rightarrow> int" where
  "price_total ns = sum_list (map (\<lambda>n. case n of Some k \<Rightarrow> k | None \<Rightarrow> 0) ns)"

definition price_bound :: "int option list \<Rightarrow> int" where
  "price_bound ns = sum_list (map (\<lambda>n. case n of Some k \<Rightarrow> \<bar>k\<bar> | None \<Rightarrow> 0) ns)"

text \<open>
  The invariant of the specification's data model: the stored metadata of a design are
  the ones that the computation yields for its furniture and rooms.
\<close>

definition metadata_consistent :: "design \<Rightarrow> bool" where
  "metadata_consistent d =
     (totalCost (d_metadata d) = reduce_totalCost (furniture d)
      \<and> furnitureCount (d_metadata d) = length (furniture d)
      \<and> totalArea (d_metadata d) = forEach_totalArea (rooms (d_elements d)))"

subsection \<open>Example documents\<close>

text \<open>
  A small store on which the theorems are exercised: alice owns the project \<^verbatim>\<open>p1\<close>, with
  bob as admin and carol as viewer; bob owns \<^verbatim>\<open>p2\<close>; dave is a stranger to both.
\<close>

definition ex_project :: project where
  "ex_project =
     \<lparr>p_oid = ''p1'', p_name = ''Flat'', p_description = [], owner = ''alice'',
      collaborators = [\<lparr>c_user = ''bob'', c_role = Admin, addedAt = 1\<rparr>,
                       \<lparr>c_user = ''carol'', c_role = Viewer, addedAt = 2\<rparr>],
      p_settings = [], p_tags = [], p_isPublic = False, p_status = Draft,
      lastModified = 0, p_version = 1\<rparr>"

definition ex_project2 :: project where
  "ex_project2 =
     \<lparr>p_oid = ''p2'', p_name = ''Office'', p_description = [], owner = ''bob'',
      collaborators = [], p_settings = [], p_tags = [], p_isPublic = False,
      p_status = Draft, lastModified = 0, p_version = 1\<rparr>"

definition ex_room :: wall where
  "ex_room =
     \<lparr>w_id = ''room-1'', w_type = Room, w_color = ''#666666'',
      points = int_points [(0, 0), (4, 0), (4, 3), (0, 3)],
      completed = True, thickness = Fin (1 / 4), height = Fin 3\<rparr>"

definition ex_sofa :: furnitureItem where
  "ex_sofa =
     \<lparr>f_id = ''sofa-1'', f_name = str ''Sofa'', f_category = Seating, f_type = ''sofa'',
      price = Some (Fin 100), color = ''#8B4513'',
      position = \<lparr>v_x = Fin 0, v_y = Fin 0, v_z = Fin 0\<rparr>,
      rotation = \<lparr>v_x = Fin 0, v_y = Fin 0, v_z = Fin 0\<rparr>,
      scale = \<lparr>v_x = Fin 1, v_y = Fin 1, v_z = Fin 1\<rparr>,
      customProperties = []\<rparr>"

definition ex_settings :: settings where
  "ex_settings =
     \<lparr>gridVisible = True, snapToGrid = True, showMeasurements = True, zoomLevel = Fin 100,
      activeMode = Mode_2D\<rparr>"

definition ex_environment :: environment where
  "ex_environment =
     \<lparr>lighting = \<lparr>ambientIntensity = None, directionalIntensity = None, pointIntensity = None\<rparr>,
      background = City, customBackground = None\<rparr>"

definition ex_design :: design where
  "ex_design =
     \<lparr>d_oid = ''d1'', d_project = ''p1'', d_name = str ''Plan'', d_description = [],
      d_version = ''1.0.0'', d_settings = ex_settings,
      d_elements = \<lparr>walls = [], windows = ''[]'', rooms = []\<rparr>,
      furniture = [], layers = ''[]'', camera = ''{}'', d_environment = ex_environment,
      d_metadata = \<lparr>totalArea = Fin 0, totalCost = Fin 0, furnitureCount = 0,
                    lastRendered = None\<rparr>,
      d_isPublic = True, d_tags = [], d_status = In_progress\<rparr>"

definition ex_design2 :: design where
  "ex_design2 = ex_design\<lparr>d_oid := ''d2'', d_project := ''p2'', d_name := str ''Desk'',
                          d_isPublic := False\<rparr>"

definition ex_store :: store where
  "ex_store = \<lparr>projects = [ex_project, ex_project2], designs = [ex_design, ex_design2]\<rparr>"

definition alice :: user where
  "alice = \<lparr>u_oid = ''alice'', subscription_plan = Pro\<rparr>"

definition bob :: user where
  "bob = \<lparr>u_oid = ''bob'', subscription_plan = Free\<rparr>"

definition carol :: user where
  "carol = \<lparr>u_oid = ''carol'', subscription_plan = Free\<rparr>"

definition dave :: user where
  "dave = \<lparr>u_oid = ''dave'', subscription_plan = Enterprise\<rparr>"

definition ex_ctx :: saveCtx where
  "ex_ctx = \<lparr>ctx_isModified = True, ctx_isNew = False, ctx_now = 7\<rparr>"

text \<open>
  A design with three furniture items, of prices 100, none and 50, and two rooms: the
  rectangle and a room of two points.
\<close>

definition ex_furnished :: design where
  "ex_furnished =
     ex_design\<lparr>furniture := [ex_sofa, ex_sofa\<lparr>f_id := ''lamp-1'', price := None\<rparr>,
                             ex_sofa\<lparr>f_id := ''desk-1'', price := Some (Fin 50)\<rparr>],
               d_elements := \<lparr>walls = [], windows = ''[]'',
                  rooms = [ex_room, ex_room\<lparr>points := int_points [(0, 0), (1, 1)]\<rparr>]\<rparr>\<rparr>"


text \<open>A request body without keys, a patch without keys, and a catalogue of templates.\<close>

definition empty_body :: designBody where
  "empty_body =
     \<lparr>b_name = None, b_description = None, b_settings = None, b_elements = None,
      b_furniture = None, b_layers = None, b_camera = None, b_environment = None,
      b_status = None, b_tags = None\<rparr>"

definition empty_patch :: furniturePatch where
  "empty_patch =
     \<lparr>up_id = None, up_name = None, up_category = None, up_type = None, up_price = None,
      up_color = None, up_position = None, up_rotation = None, up_scale = None,
      up_customProperties = None\<rparr>"

definition ex_template :: template where
  "ex_template =
     \<lparr>t_oid = ''t1'', t_name = ''Loft'', t_category = ''living'', t_style = ''modern'',
      requirements_subscription = Free, t_isActive = True, t_isFeatured = False,
      t_popularity = 3\<rparr>"

definition ex_catalogue :: "template list" where
  "ex_catalogue =
     [ex_template,
      ex_template\<lparr>t_oid := ''t2'', requirements_subscription := Pro\<rparr>,
      ex_template\<lparr>t_oid := ''t3'', requirements_subscription := Enterprise\<rparr>,
      ex_template\<lparr>t_oid := ''t4'', t_isActive := False\<rparr>]"

text \<open>A stored design whose name has the 100 characters that the schema allows.\<close>

definition ex_long_design :: design where
  "ex_long_design = ex_design\<lparr>d_oid := ''d3'', d_name := replicate 100 97\<rparr>"

section \<open>Theorems\<close>

subsection \<open>C8: the tier comparator\<close>

lemma subscriptionHierarchy_tierRank: "subscriptionHierarchy p = tierRank p"
  by (cases p) simp_all

lemma planHierarchy_tierRank: "planHierarchy p = tierRank p"
  by (cases p) simp_all

text \<open>
  Claim C8. \<open>canAccess\<close> of a template whose required plan is \<open>requiredPlan\<close> returns true
  for \<open>userPlan\<close> exactly when \<open>tierRank userPlan \<ge> tierRank requiredPlan\<close>, and the
  middleware \<open>requireSubscription\<close> lets an identified user pass under the same condition;
  canAccess('free','pro') is false, canAccess('pro','pro') and canAccess('enterprise','free')
  are true.
\<close>

theorem canAccess_iff_tierRank:
  "(canAccess (t\<lparr>requirements_subscription := requiredPlan\<rparr>) userPlan
      \<longleftrightarrow> tierRank userPlan \<ge> tierRank requiredPlan)
   \<and> (canAccess t userPlan \<longleftrightarrow> tierRank userPlan \<ge> tierRank (requirements_subscription t))
   \<and> (requireSubscription requiredPlan (Some u) = Next
      \<longleftrightarrow> tierRank (subscription_plan u) \<ge> tierRank requiredPlan)
   \<and> \<not> canAccess (t\<lparr>requirements_subscription := Pro\<rparr>) Free
   \<and> canAccess (t\<lparr>requirements_subscription := Pro\<rparr>) Pro
   \<and> canAccess (t\<lparr>requirements_subscription := Free\<rparr>) Enterprise"
  by (simp add: canAccess_def requireSubscription_def Let_def
      subscriptionHierarchy_tierRank planHierarchy_tierRank not_less)

theorem canAccess_iff_tierRank_witness:
  "\<not> canAccess \<lparr>t_oid = ''t1'', t_name = ''Loft'', t_category = ''living'', t_style = ''modern'',
       requirements_subscription = Enterprise, t_isActive = True, t_isFeatured = False,
       t_popularity = 0\<rparr> Pro
   \<and> requireSubscription Pro (Some \<lparr>u_oid = ''u1'', subscription_plan = Enterprise\<rparr>) = Next
   \<and> requireSubscription Pro (Some \<lparr>u_oid = ''u2'', subscription_plan = Free\<rparr>) \<noteq> Next"
  using canAccess_iff_tierRank
    [where t = "\<lparr>t_oid = ''t1'', t_name = ''Loft'', t_category = ''living'', t_style = ''modern'',
         requirements_subscription = Enterprise, t_isActive = True, t_isFeatured = False,
         t_popularity = 0\<rparr>" and requiredPlan = Pro and userPlan = Pro
       and u = "\<lparr>u_oid = ''u1'', subscription_plan = Enterprise\<rparr>"]
    canAccess_iff_tierRank
    [where t = "\<lparr>t_oid = ''t1'', t_name = ''Loft'', t_category = ''living'', t_style = ''modern'',
         requirements_subscription = Enterprise, t_isActive = True, t_isFeatured = False,
         t_popularity = 0\<rparr>" and requiredPlan = Pro and userPlan = Pro
       and u = "\<lparr>u_oid = ''u2'', subscription_plan = Free\<rparr>"]
  by simp

subsection \<open>Lookups in lists\<close>

lemma find_Some_oid: "find (\<lambda>p. f p = i) ps = Some P \<Longrightarrow> f P = i \<and> P \<in> set ps"
  by (induction ps) (auto split: if_splits)

lemma find_distinct_unique:
  "distinct (map f xs) \<Longrightarrow> find (\<lambda>c. f c = u) xs = Some c \<Longrightarrow> x \<in> set xs \<Longrightarrow> f x = u \<Longrightarrow> x = c"
  by (induction xs) (auto split: if_splits simp: image_iff)

lemma findByIdAndDelete_set:
  "distinct (map f ps) \<Longrightarrow> set (findByIdAndDelete f i ps) = {p \<in> set ps. f p \<noteq> i}"
  by (induction ps) (auto simp: image_iff)

subsection \<open>C1: only the owner deletes a project\<close>

lemma delete_project_denied:
  assumes "find (\<lambda>p. p_oid p = i) (projects s) = Some P" and "u_oid U \<noteq> owner P"
  shows "delete_project s (Some U) i = (Reply 403 ''Only project owners can delete projects'', s)
         \<or> delete_project s (Some U) i = (Reply 403 ''Access denied'', s)"
  using assms by (auto simp: delete_project_def requireOwnershipOrCollaboration_def)

lemma delete_project_allowed:
  assumes "find (\<lambda>p. p_oid p = i) (projects s) = Some P" and "u_oid U = owner P"
  shows "delete_project s (Some U) i =
           (Reply 200 ''Project deleted successfully'',
            s\<lparr>designs := filter (\<lambda>d. d_project d \<noteq> i) (designs s),
              projects := findByIdAndDelete p_oid i (projects s)\<rparr>)"
  using assms by (auto simp: delete_project_def requireOwnershipOrCollaboration_def)

text \<open>
  Claim C1. Let \<open>P\<close> be the project that the store holds under the id \<open>i\<close>. For every
  user \<open>U\<close>, whatever entry \<open>U\<close> has among the collaborators of \<open>P\<close>, the route
  \<^verbatim>\<open>DELETE /api/projects/:id\<close> answers 200 exactly when \<open>U\<close> is the owner of \<open>P\<close>; another
  user gets 403 and the store is unchanged. When the owner deletes, the designs left are
  those of the other projects (the deletion cascades to every design of \<open>P\<close>), and, ids
  being unique, \<open>P\<close> is the one project that goes.
\<close>

theorem delete_project_owner_only:
  assumes "find (\<lambda>p. p_oid p = i) (projects s) = Some P"
  shows "(fst (delete_project s (Some U) i) = Reply 200 ''Project deleted successfully''
            \<longleftrightarrow> u_oid U = owner P)
       \<and> (u_oid U \<noteq> owner P \<longrightarrow>
            delete_project s (Some U) i = (Reply 403 ''Only project owners can delete projects'', s)
            \<or> delete_project s (Some U) i = (Reply 403 ''Access denied'', s))
       \<and> (u_oid U = owner P \<longrightarrow>
            designs (snd (delete_project s (Some U) i))
              = filter (\<lambda>d. d_project d \<noteq> p_oid P) (designs s)
            \<and> list_all (\<lambda>d. d_project d \<noteq> p_oid P) (designs (snd (delete_project s (Some U) i)))
            \<and> (distinct (map p_oid (projects s)) \<longrightarrow>
                 set (projects (snd (delete_project s (Some U) i))) = set (projects s) - {P}))"
proof -
  have i: "p_oid P = i" "P \<in> set (projects s)"
    using find_Some_oid[OF assms] by auto
  have g: "distinct (map p_oid (projects s)) \<Longrightarrow>
             {p \<in> set (projects s). p_oid p \<noteq> i} = set (projects s) - {P}"
    using i by (auto simp: distinct_map inj_on_def)
  show ?thesis
  proof (cases "u_oid U = owner P")
    case True
    then show ?thesis
      using delete_project_allowed[OF assms True] i g
      by (simp add: findByIdAndDelete_set list_all_iff)
  next
    case False
    then show ?thesis
      using delete_project_denied[OF assms False] by auto
  qed
qed

theorem delete_project_owner_only_witness:
  "delete_project ex_store (Some bob) ''p1''
     = (Reply 403 ''Only project owners can delete projects'', ex_store)
   \<and> fst (delete_project ex_store (Some alice) ''p1'') = Reply 200 ''Project deleted successfully''
   \<and> designs (snd (delete_project ex_store (Some alice) ''p1'')) = [ex_design2]
   \<and> set (projects (snd (delete_project ex_store (Some alice) ''p1''))) = {ex_project2}"
proof -
  have f: "find (\<lambda>p. p_oid p = ''p1'') (projects ex_store) = Some ex_project"
    by (simp add: ex_store_def ex_project_def)
  have ne: "ex_project2 \<noteq> ex_project"
    by (simp add: ex_project_def ex_project2_def)
  have d: "distinct (map p_oid (projects ex_store))"
    by (simp add: ex_store_def ex_project_def ex_project2_def)
  have b: "delete_project ex_store (Some bob) ''p1'' \<noteq> (Reply 403 ''Access denied'', ex_store)"
    by (simp add: delete_project_def requireOwnershipOrCollaboration_def ex_store_def
        ex_project_def bob_def)
  have l: "filter (\<lambda>d. d_project d \<noteq> ''p1'') (designs ex_store) = [ex_design2]"
    by (simp add: ex_store_def ex_design_def ex_design2_def)
  have o: "u_oid bob \<noteq> owner ex_project" "u_oid alice = owner ex_project" "p_oid ex_project = ''p1''"
    by (simp_all add: ex_project_def bob_def alice_def)
  have s: "set (projects ex_store) - {ex_project} = {ex_project2}"
    using ne by (auto simp: ex_store_def)
  show ?thesis
    using delete_project_owner_only [OF f, where U = bob]
      delete_project_owner_only [OF f, where U = alice] b d l o s
    by simp
qed

subsection \<open>C2: the role hierarchy\<close>

lemma roleHierarchy_total:
  "roleHierarchy r1 < roleHierarchy r2 \<or> roleHierarchy r2 < roleHierarchy r1 \<or> r1 = r2"
  by (cases r1; cases r2) simp_all

lemma roleHierarchy_Editor: "(2 \<le> roleHierarchy r) = (r = Editor \<or> r = Admin)"
  by (cases r) simp_all

lemma hasAccess_collaborator:
  assumes "owner p \<noteq> userId"
    and "find (\<lambda>c. c_user c = userId) (collaborators p) = Some c"
  shows "hasAccess p userId r \<longleftrightarrow> roleHierarchy (c_role c) \<ge> roleHierarchy r"
  using assms by (simp add: hasAccess_def)

lemma canEditDesign_hasAccess:
  assumes "owner p \<noteq> userId"
    and "find (\<lambda>c. c_user c = userId) (collaborators p) = Some c"
    and "distinct (map c_user (collaborators p))" and "u_oid u = userId"
  shows "canEditDesign p u \<longleftrightarrow> hasAccess p userId Editor"
proof -
  have mem: "c \<in> set (collaborators p)" "c_user c = userId"
    using find_Some_oid[OF assms(2)] by auto
  have "\<And>x. x \<in> set (collaborators p) \<Longrightarrow> c_user x = userId \<Longrightarrow> x = c"
    using find_distinct_unique[OF assms(3) assms(2)] by blast
  then have "list_ex (\<lambda>collab. c_user collab = userId \<and> c_role collab \<in> set [Editor, Admin])
               (collaborators p)
             \<longleftrightarrow> c_role c \<in> set [Editor, Admin]"
    using mem unfolding list_ex_iff by blast
  then show ?thesis
    using assms(1) assms(4)
    by (simp add: canEditDesign_def hasAccess_collaborator[OF assms(1,2)] roleHierarchy_Editor)
qed

lemma middleware_hasAccess:
  assumes "owner p \<noteq> userId"
    and "find (\<lambda>c. c_user c = userId) (collaborators p) = Some c"
    and "find (\<lambda>q. p_oid q = i) ps = Some p" and "u_oid u = userId"
  shows "fst (requireOwnershipOrCollaboration ps (Some u) m i) = Next
           \<longleftrightarrow> hasAccess p userId Viewer"
proof -
  have mem: "c \<in> set (collaborators p)" "c_user c = userId"
    using find_Some_oid[OF assms(2)] by auto
  have "list_ex (\<lambda>collab. c_user collab = userId) (collaborators p)"
    using mem unfolding list_ex_iff by blast
  moreover have "collaborators p \<noteq> []" using mem by auto
  moreover have "1 \<le> roleHierarchy (c_role c)" by (cases "c_role c") simp_all
  ultimately show ?thesis
    using assms
    by (simp add: requireOwnershipOrCollaboration_def hasAccess_collaborator[OF assms(1,2)])
qed

text \<open>
  Claim C2. Let \<open>userId\<close> be a user who is not the owner of the project \<open>p\<close> and whose
  collaborator entry is \<open>c\<close>. Then \<open>hasAccess\<close> grants an operation that requires the role
  \<open>r\<close> if and only if the rank of the role of \<open>c\<close> is at least the rank of \<open>r\<close>, under
  viewer = 1, editor = 2, admin = 3, a strict total order; so a collaborator holding \<open>r2\<close>
  is allowed every operation requiring an \<open>r1\<close> below or equal to it. The checks that the
  routes write out agree with it: the one of the design-changing routes is \<open>hasAccess\<close> at
  the required role editor (a user having one entry), and the middleware of the project
  routes is \<open>hasAccess\<close> at the required role viewer, for every HTTP method.
\<close>

theorem collaborator_role_hierarchy:
  assumes "owner p \<noteq> userId"
    and "find (\<lambda>c. c_user c = userId) (collaborators p) = Some c"
  shows "(hasAccess p userId r \<longleftrightarrow> roleHierarchy (c_role c) \<ge> roleHierarchy r)
    \<and> (roleHierarchy r1 \<le> roleHierarchy r2 \<and> c_role c = r2 \<longrightarrow> hasAccess p userId r1)
    \<and> roleHierarchy Viewer = 1 \<and> roleHierarchy Editor = 2 \<and> roleHierarchy Admin = 3
    \<and> (roleHierarchy r1 < roleHierarchy r2 \<or> roleHierarchy r2 < roleHierarchy r1 \<or> r1 = r2)
    \<and> (distinct (map c_user (collaborators p)) \<and> u_oid u = userId \<longrightarrow>
          (canEditDesign p u \<longleftrightarrow> hasAccess p userId Editor))
    \<and> (find (\<lambda>q. p_oid q = i) ps = Some p \<and> u_oid u = userId \<longrightarrow>
          (fst (requireOwnershipOrCollaboration ps (Some u) m i) = Next
             \<longleftrightarrow> hasAccess p userId Viewer))"
proof (intro conjI)
  show "hasAccess p userId r \<longleftrightarrow> roleHierarchy (c_role c) \<ge> roleHierarchy r"
    by (rule hasAccess_collaborator[OF assms])
  show "roleHierarchy r1 \<le> roleHierarchy r2 \<and> c_role c = r2 \<longrightarrow> hasAccess p userId r1"
    by (simp add: hasAccess_collaborator[OF assms])
  show "roleHierarchy Viewer = 1" "roleHierarchy Editor = 2" "roleHierarchy Admin = 3"
    by simp_all
  show "roleHierarchy r1 < roleHierarchy r2 \<or> roleHierarchy r2 < roleHierarchy r1 \<or> r1 = r2"
    by (rule roleHierarchy_total)
  show "distinct (map c_user (collaborators p)) \<and> u_oid u = userId \<longrightarrow>
          (canEditDesign p u \<longleftrightarrow> hasAccess p userId Editor)"
    using canEditDesign_hasAccess[OF assms] by blast
  show "find (\<lambda>q. p_oid q = i) ps = Some p \<and> u_oid u = userId \<longrightarrow>
          (fst (requireOwnershipOrCollaboration ps (Some u) m i) = Next
             \<longleftrightarrow> hasAccess p userId Viewer)"
    using middleware_hasAccess[OF assms] by blast
qed

theorem collaborator_role_hierarchy_witness:
  "hasAccess ex_project ''bob'' Editor \<and> \<not> hasAccess ex_project ''carol'' Editor
   \<and> hasAccess ex_project ''carol'' Viewer
   \<and> canEditDesign ex_project bob \<and> \<not> canEditDesign ex_project carol
   \<and> fst (requireOwnershipOrCollaboration [ex_project] (Some carol) PUT ''p1'') = Next"
proof -
  have b: "owner ex_project \<noteq> ''bob''"
    "find (\<lambda>c. c_user c = ''bob'') (collaborators ex_project)
       = Some \<lparr>c_user = ''bob'', c_role = Admin, addedAt = 1\<rparr>"
    by (simp_all add: ex_project_def)
  have c: "owner ex_project \<noteq> ''carol''"
    "find (\<lambda>c. c_user c = ''carol'') (collaborators ex_project)
       = Some \<lparr>c_user = ''carol'', c_role = Viewer, addedAt = 2\<rparr>"
    by (simp_all add: ex_project_def)
  have d: "distinct (map c_user (collaborators ex_project))"
    "find (\<lambda>q. p_oid q = ''p1'') [ex_project] = Some ex_project"
    "u_oid bob = ''bob''" "u_oid carol = ''carol''"
    by (simp_all add: ex_project_def bob_def carol_def)
  show ?thesis
    using collaborator_role_hierarchy [OF b, where r = Editor and u = bob]
      collaborator_role_hierarchy [OF c, where r = Editor and u = carol
        and ps = "[ex_project]" and i = "''p1''" and m = PUT]
      collaborator_role_hierarchy [OF c, where r = Viewer]
      d
    by simp
qed

subsection \<open>C6: the collaborator upsert\<close>

lemma find_None_user: "find (\<lambda>c. f c = u) cs = None \<longleftrightarrow> u \<notin> f ` set cs"
  by (induction cs) auto

lemma set_role_of_first_users: "map c_user (set_role_of_first u r cs) = map c_user cs"
  by (induction cs) auto

lemma set_role_of_first_absent: "u \<notin> c_user ` set cs \<Longrightarrow> set_role_of_first u r cs = cs"
  by (induction cs) auto

lemma map_role_absent:
  "u \<notin> c_user ` set cs \<Longrightarrow> map (\<lambda>c. if c_user c = u then c\<lparr>c_role := r\<rparr> else c) cs = cs"
  by (induction cs) auto

lemma set_role_of_first_distinct:
  "distinct (map c_user cs) \<Longrightarrow>
     set_role_of_first u r cs = map (\<lambda>c. if c_user c = u then c\<lparr>c_role := r\<rparr> else c) cs"
  by (induction cs) (auto simp: map_role_absent)

lemma set_role_of_first_idem:
  "set_role_of_first u r (set_role_of_first u r cs) = set_role_of_first u r cs"
  by (induction cs) auto

lemma set_role_of_first_append:
  "u \<notin> c_user ` set cs \<Longrightarrow>
     set_role_of_first u r (cs @ [\<lparr>c_user = u, c_role = r, addedAt = t\<rparr>])
       = cs @ [\<lparr>c_user = u, c_role = r, addedAt = t\<rparr>]"
  by (induction cs) auto

lemma collaborators_project_save [simp]: "collaborators (project_save ctx p) = collaborators p"
  by (simp add: project_save_def project_pre_save_def)

lemma collaborators_addCollaborator:
  "collaborators (addCollaborator ctx p u r) =
     (if u \<in> c_user ` set (collaborators p) then set_role_of_first u r (collaborators p)
      else collaborators p @ [\<lparr>c_user = u, c_role = r, addedAt = ctx_now ctx\<rparr>])"
  using find_None_user[of c_user u "collaborators p"]
  by (auto simp: addCollaborator_def split: option.splits)

lemma collaborators_removeCollaborator:
  "collaborators (removeCollaborator ctx p u) = filter (\<lambda>c. c_user c \<noteq> u) (collaborators p)"
  by (simp add: removeCollaborator_def)

lemma set_role_of_first_image: "c_user ` set (set_role_of_first u r cs) = c_user ` set cs"
  by (metis set_map set_role_of_first_users)

lemma addCollaborator_present:
  "u \<in> c_user ` set (collaborators (addCollaborator ctx p u r))"
  by (simp add: collaborators_addCollaborator set_role_of_first_image)

lemma addCollaborator_distinct:
  "distinct (map c_user (collaborators p)) \<Longrightarrow>
     distinct (map c_user (collaborators (addCollaborator ctx p u r)))"
  by (simp add: collaborators_addCollaborator set_role_of_first_users)

lemma addCollaborator_idem:
  "collaborators (addCollaborator ctx' (addCollaborator ctx p u r) u r)
     = collaborators (addCollaborator ctx p u r)"
proof -
  have "collaborators (addCollaborator ctx' (addCollaborator ctx p u r) u r)
          = set_role_of_first u r (collaborators (addCollaborator ctx p u r))"
    using addCollaborator_present[of u ctx p r]
    by (subst collaborators_addCollaborator) simp
  also have "\<dots> = collaborators (addCollaborator ctx p u r)"
    by (simp add: collaborators_addCollaborator set_role_of_first_idem set_role_of_first_append)
  finally show ?thesis .
qed

lemma remove_then_add:
  "filter (\<lambda>c. c_user c = u) (collaborators (addCollaborator ctx' (removeCollaborator ctx p u) u r))
     = [\<lparr>c_user = u, c_role = r, addedAt = ctx_now ctx'\<rparr>]"
proof -
  have "u \<notin> c_user ` set (collaborators (removeCollaborator ctx p u))"
    by (auto simp: collaborators_removeCollaborator)
  then have "collaborators (addCollaborator ctx' (removeCollaborator ctx p u) u r)
     = filter (\<lambda>c. c_user c \<noteq> u) (collaborators p) @ [\<lparr>c_user = u, c_role = r, addedAt = ctx_now ctx'\<rparr>]"
    by (simp add: collaborators_addCollaborator collaborators_removeCollaborator)
  then show ?thesis by simp
qed

text \<open>
  Claim C6. \<open>addCollaborator\<close> keeps the users of the collaborator list distinct (and so
  does \<open>removeCollaborator\<close>). When the user is present, the list keeps its users in
  their places and, each user occurring once, only the role of that user's entry changes;
  when the user is absent, one entry with the role and \<^verbatim>\<open>addedAt = now\<close> is appended.
  Adding the same user with the same role again changes nothing. After
  \<open>removeCollaborator\<close> and an \<open>addCollaborator\<close> with a role \<open>r'\<close>, the entries of the
  user are exactly one entry, carrying \<open>r'\<close>.
\<close>

theorem addCollaborator_upsert:
  "(distinct (map c_user (collaborators p)) \<longrightarrow>
      distinct (map c_user (collaborators (addCollaborator ctx p u r)))
      \<and> distinct (map c_user (collaborators (removeCollaborator ctx p u))))
   \<and> (u \<in> c_user ` set (collaborators p) \<longrightarrow>
        map c_user (collaborators (addCollaborator ctx p u r)) = map c_user (collaborators p)
        \<and> (distinct (map c_user (collaborators p)) \<longrightarrow>
             collaborators (addCollaborator ctx p u r)
               = map (\<lambda>c. if c_user c = u then c\<lparr>c_role := r\<rparr> else c) (collaborators p)))
   \<and> (u \<notin> c_user ` set (collaborators p) \<longrightarrow>
        collaborators (addCollaborator ctx p u r)
          = collaborators p @ [\<lparr>c_user = u, c_role = r, addedAt = ctx_now ctx\<rparr>])
   \<and> collaborators (addCollaborator ctx' (addCollaborator ctx p u r) u r)
        = collaborators (addCollaborator ctx p u r)
   \<and> filter (\<lambda>c. c_user c = u)
        (collaborators (addCollaborator ctx' (removeCollaborator ctx p u) u r'))
        = [\<lparr>c_user = u, c_role = r', addedAt = ctx_now ctx'\<rparr>]"
proof (intro conjI impI)
  assume d: "distinct (map c_user (collaborators p))"
  show "distinct (map c_user (collaborators (addCollaborator ctx p u r)))"
    by (rule addCollaborator_distinct[OF d])
  show "distinct (map c_user (collaborators (removeCollaborator ctx p u)))"
    using d by (simp add: collaborators_removeCollaborator distinct_map_filter)
next
  assume "u \<in> c_user ` set (collaborators p)"
  then show "map c_user (collaborators (addCollaborator ctx p u r)) = map c_user (collaborators p)"
    by (simp add: collaborators_addCollaborator set_role_of_first_users)
next
  assume "u \<in> c_user ` set (collaborators p)" "distinct (map c_user (collaborators p))"
  then show "collaborators (addCollaborator ctx p u r)
               = map (\<lambda>c. if c_user c = u then c\<lparr>c_role := r\<rparr> else c) (collaborators p)"
    by (simp add: collaborators_addCollaborator set_role_of_first_distinct)
next
  assume "u \<notin> c_user ` set (collaborators p)"
  then show "collaborators (addCollaborator ctx p u r)
          = collaborators p @ [\<lparr>c_user = u, c_role = r, addedAt = ctx_now ctx\<rparr>]"
    by (simp add: collaborators_addCollaborator)
next
  show "collaborators (addCollaborator ctx' (addCollaborator ctx p u r) u r)
        = collaborators (addCollaborator ctx p u r)"
    by (rule addCollaborator_idem)
  show "filter (\<lambda>c. c_user c = u)
        (collaborators (addCollaborator ctx' (removeCollaborator ctx p u) u r'))
        = [\<lparr>c_user = u, c_role = r', addedAt = ctx_now ctx'\<rparr>]"
    by (rule remove_then_add)
qed

theorem addCollaborator_upsert_witness:
  "collaborators (addCollaborator ex_ctx ex_project ''carol'' Editor)
     = [\<lparr>c_user = ''bob'', c_role = Admin, addedAt = 1\<rparr>,
        \<lparr>c_user = ''carol'', c_role = Editor, addedAt = 2\<rparr>]
   \<and> collaborators (addCollaborator ex_ctx ex_project ''dave'' Viewer)
     = [\<lparr>c_user = ''bob'', c_role = Admin, addedAt = 1\<rparr>,
        \<lparr>c_user = ''carol'', c_role = Viewer, addedAt = 2\<rparr>,
        \<lparr>c_user = ''dave'', c_role = Viewer, addedAt = 7\<rparr>]
   \<and> distinct (map c_user (collaborators (addCollaborator ex_ctx ex_project ''carol'' Editor)))"
proof -
  have d: "distinct (map c_user (collaborators ex_project))"
    "''carol'' \<in> c_user ` set (collaborators ex_project)"
    "''dave'' \<notin> c_user ` set (collaborators ex_project)"
    by (simp_all add: ex_project_def)
  have c: "collaborators ex_project = [\<lparr>c_user = ''bob'', c_role = Admin, addedAt = 1\<rparr>,
                       \<lparr>c_user = ''carol'', c_role = Viewer, addedAt = 2\<rparr>]"
     "ctx_now ex_ctx = 7"
    by (simp_all add: ex_project_def ex_ctx_def)
  show ?thesis
    using addCollaborator_upsert [where p = ex_project and ctx = ex_ctx and u = "''carol''" and r = Editor]
      addCollaborator_upsert [where p = ex_project and ctx = ex_ctx and u = "''dave''" and r = Viewer]
      d
    by (simp add: c)
qed

subsection \<open>C4: the version counter\<close>

lemma project_saves_version:
  "p_version (project_saves ctxs p)
     = p_version p + int (length (filter (\<lambda>c. ctx_isModified c \<and> \<not> ctx_isNew c) ctxs))"
  by (induction ctxs arbitrary: p) (auto simp: project_save_def project_pre_save_def)

lemma update_first_map:
  "(\<And>x. g (f x) = g x) \<Longrightarrow> map g (update_first P f xs) = map g xs"
  by (induction xs) auto

lemma put_design_versions:
  "map d_version (designs (snd (put_design s req_user i b))) = map d_version (designs s)"
  by (auto simp: put_design_def apply_updateData_def update_first_map split: option.splits)

text \<open>
  Claim C4, as amended. A save of a Project that Mongoose reports as modified and not new
  adds exactly one to the integer \<^verbatim>\<open>version\<close> and sets \<^verbatim>\<open>lastModified\<close> to the current
  time; a save of a new document, or of one without changes, leaves the document as it
  is. Over a history of saves the version grows by the number of such modifying saves, so
  it never decreases. A Design's \<^verbatim>\<open>version\<close> is a string that neither its save hook nor
  \<^verbatim>\<open>PUT /api/designs/:id\<close> changes.
\<close>

theorem version_counter:
  "(ctx_isModified ctx \<and> \<not> ctx_isNew ctx \<longrightarrow>
      p_version (project_save ctx p) = p_version p + 1
      \<and> lastModified (project_save ctx p) = ctx_now ctx)
   \<and> (\<not> (ctx_isModified ctx \<and> \<not> ctx_isNew ctx) \<longrightarrow> project_save ctx p = p)
   \<and> p_version (project_saves ctxs p)
       = p_version p + int (length (filter (\<lambda>c. ctx_isModified c \<and> \<not> ctx_isNew c) ctxs))
   \<and> p_version p \<le> p_version (project_saves ctxs p)
   \<and> d_version (design_pre_save d) = d_version d
   \<and> (design_save d = Inr d' \<longrightarrow> d_version d' = d_version d)
   \<and> map d_version (designs (snd (put_design s req_user i b))) = map d_version (designs s)"
  by (auto simp: project_saves_version put_design_versions project_save_def project_pre_save_def
      design_save_def design_pre_save_def split: if_splits)

theorem version_counter_witness:
  "p_version (project_save ex_ctx ex_project) = 2
   \<and> lastModified (project_save ex_ctx ex_project) = 7
   \<and> project_save (ex_ctx\<lparr>ctx_isNew := True\<rparr>) ex_project = ex_project
   \<and> p_version (project_saves [ex_ctx, ex_ctx\<lparr>ctx_isModified := False\<rparr>, ex_ctx] ex_project) = 3"
  using version_counter [where ctx = ex_ctx and p = ex_project
      and ctxs = "[ex_ctx, ex_ctx\<lparr>ctx_isModified := False\<rparr>, ex_ctx]"]
    version_counter [where ctx = "ex_ctx\<lparr>ctx_isNew := True\<rparr>" and p = ex_project]
  by (simp add: ex_ctx_def ex_project_def)

text \<open>
  The claim as stated fails: a save of a stored project without changes does not
  increment the version, and the version of a design is the string \<^verbatim>\<open>'1.0.0'\<close> before
  and after a save.
\<close>

theorem version_counterexample:
  "p_version (project_save \<lparr>ctx_isModified = False, ctx_isNew = False, ctx_now = 7\<rparr> ex_project)
     \<noteq> p_version ex_project + 1
   \<and> d_version ex_design = ''1.0.0''
   \<and> (case design_save ex_design of Inr d' \<Rightarrow> d_version d' = ''1.0.0'' | Inl e \<Rightarrow> False)"
  by (simp add: project_save_def project_pre_save_def ex_project_def ex_design_def
      design_save_def design_pre_save_def design_validate_def name_ok_def description_ok_def
      tags_ok_def furniture_ok_def elements_ok_def str_def)

subsection \<open>C7: the metadata of a design\<close>

text \<open>
  Rounding to a double is the identity on the dyadic numbers \<open>k * 2 ^ m\<close> with
  \<open>\<bar>k\<bar> < 2 ^ 53\<close>, so the sums, differences and products of integers below \<open>2 ^ 53\<close> and
  their halves are computed without error.
\<close>

lemma round_even_int [simp]: "round_even (of_int z) = z"
  by (simp add: round_even_def)

lemma floor_log2_less:
  assumes "0 < x" and "x < 2 powi n"
  shows "\<lfloor>log 2 x\<rfloor> < n"
proof -
  have "log 2 x < log 2 (2 powi n)"
    using assms by simp
  also have "\<dots> = of_int n"
    by (simp add: powr_int [symmetric] flip: powr_real_of_int')
  finally show ?thesis by (simp add: floor_less_iff)
qed

lemma fl_dyadic:
  assumes "\<bar>k\<bar> < 2 ^ 53" and "- 1074 \<le> m"
  shows "fl (of_int k * 2 powi m) = of_int k * 2 powi m"
proof (cases "k = 0")
  case True
  then show ?thesis by (simp add: fl_def)
next
  case False
  let ?x = "of_int k * 2 powi m :: real"
  have x0: "?x \<noteq> 0" using False by simp
  have "\<bar>?x\<bar> = of_int \<bar>k\<bar> * 2 powi m"
    by (simp add: abs_mult)
  also have "\<dots> < 2 ^ 53 * 2 powi m"
  proof -
    have "(of_int \<bar>k\<bar> :: real) < of_int (2 ^ 53)" using assms(1) by (simp only: of_int_less_iff)
    then show ?thesis by simp
  qed
  also have "\<dots> = 2 powi (53 + m)"
    by (simp add: power_int_add)
  finally have "\<lfloor>log 2 \<bar>?x\<bar>\<rfloor> < 53 + m"
    using x0 by (intro floor_log2_less) auto
  then have E: "max \<lfloor>log 2 \<bar>?x\<bar>\<rfloor> (- 1022) - 52 \<le> m"
    using assms(2) by simp
  define E where "E = max \<lfloor>log 2 \<bar>?x\<bar>\<rfloor> (- 1022) - 52"
  have q: "quantum ?x = 2 powi E" by (simp add: quantum_def E_def)
  have "?x / 2 powi E = of_int k * 2 powi (m - E)"
    by (simp add: power_int_diff)
  also have "\<dots> = of_int (k * 2 ^ nat (m - E))"
    using E by (simp add: E_def power_int_def)
  finally have "?x / quantum ?x = of_int (k * 2 ^ nat (m - E))"
    by (simp add: q)
  then have "fl ?x = 2 powi E * of_int (k * 2 ^ nat (m - E))"
    using x0 by (simp only: fl_def q round_even_int if_False)
  also have "\<dots> = of_int k * (2 powi E * 2 powi (m - E))"
    using E by (simp add: E_def power_int_def)
  also have "\<dots> = ?x"
    by (simp flip: power_int_add)
  finally show ?thesis .
qed

lemma fl_int: "\<bar>k\<bar> < 2 ^ 53 \<Longrightarrow> fl (of_int k) = of_int k"
  using fl_dyadic[of k 0] by simp


lemma small_real: "\<bar>k\<bar> < 2 ^ 53 \<Longrightarrow> \<bar>of_int k :: real\<bar> < 2 ^ 53"
proof -
  assume "\<bar>k\<bar> < 2 ^ 53"
  then have "(of_int \<bar>k\<bar> :: real) < of_int (2 ^ 53)" by (simp only: of_int_less_iff)
  then show ?thesis by simp
qed

lemma rnd_int: "\<bar>k\<bar> < 2 ^ 53 \<Longrightarrow> rnd (of_int k) = Fin (of_int k)"
  using small_real[of k] by (simp add: rnd_def fl_int Let_def abs_less_iff)


lemma num_add_int:
  "\<bar>a + b\<bar> < 2 ^ 53 \<Longrightarrow> num_add (Fin (of_int a)) (Fin (of_int b)) = Fin (of_int (a + b))"
  using rnd_int[of "a + b"] by simp




text \<open>The total cost of integer prices.\<close>

lemma price_or_0_int:
  "price item = map_option (\<lambda>n. Fin (of_int n)) n \<Longrightarrow>
     price_or_0 item = Fin (of_int (case n of Some k \<Rightarrow> k | None \<Rightarrow> 0))"
  by (cases n) (auto simp: price_or_0_def)

lemma reduce_int_aux:
  "map price fs = int_prices ns \<Longrightarrow> \<bar>a\<bar> + price_bound ns < 2 ^ 53 \<Longrightarrow>
     foldl (\<lambda>total item. num_add total (price_or_0 item)) (Fin (of_int a)) fs
       = Fin (of_int (a + price_total ns))"
proof (induction fs arbitrary: a ns)
  case Nil
  then show ?case by (simp add: int_prices_def price_total_def)
next
  case (Cons f fs)
  then obtain n ns' where ns: "ns = n # ns'"
    by (cases ns) (auto simp: int_prices_def)
  let ?k = "case n of Some k \<Rightarrow> k | None \<Rightarrow> 0"
  have p: "price_or_0 f = Fin (of_int ?k)"
    using Cons.prems(1) by (intro price_or_0_int) (simp add: ns int_prices_def)
  have b: "price_bound ns = \<bar>?k\<bar> + price_bound ns'"
    by (cases n) (simp_all add: ns price_bound_def)
  have nn: "0 \<le> price_bound ns'"
    by (auto simp: price_bound_def intro!: sum_list_nonneg split: option.splits)
  have s1: "\<bar>a + ?k\<bar> < 2 ^ 53"
    using Cons.prems(2) b nn by linarith
  have s2: "\<bar>a + ?k\<bar> + price_bound ns' < 2 ^ 53"
    using Cons.prems(2) b by linarith
  have t: "price_total ns = ?k + price_total ns'"
    by (cases n) (simp_all add: ns price_total_def)
  have "foldl (\<lambda>total item. num_add total (price_or_0 item)) (Fin (of_int a)) (f # fs)
        = foldl (\<lambda>total item. num_add total (price_or_0 item)) (Fin (of_int (a + ?k))) fs"
    by (simp only: foldl_Cons p num_add_int[OF s1])
  also have "\<dots> = Fin (of_int ((a + ?k) + price_total ns'))"
    using Cons.prems(1) by (intro Cons.IH[OF _ s2]) (simp add: ns int_prices_def)
  finally show ?case by (simp add: t add.assoc)
qed

lemma reduce_totalCost_int:
  "map price fs = int_prices ns \<Longrightarrow> price_bound ns < 2 ^ 53 \<Longrightarrow>
     reduce_totalCost fs = Fin (of_int (price_total ns))"
  using reduce_int_aux[of fs ns 0] by (simp add: reduce_totalCost_def)





















lemma pre_save_metadata:
  "d_metadata (design_pre_save d) =
     (d_metadata d)\<lparr>totalCost := reduce_totalCost (furniture d),
                     furnitureCount := length (furniture d),
                     totalArea := forEach_totalArea (rooms (d_elements d))\<rparr>"
  by (simp add: design_pre_save_def)






subsection \<open>C3: metadata after a structural change\<close>

lemma pre_save_keeps:
  "furniture (design_pre_save d) = furniture d" "d_elements (design_pre_save d) = d_elements d"
  "d_project (design_pre_save d) = d_project d" "d_oid (design_pre_save d) = d_oid d"
  "d_name (design_pre_save d) = d_name d"
  by (simp_all add: design_pre_save_def)

lemma design_save_consistent: "design_save d = Inr d' \<Longrightarrow> metadata_consistent d'"
  by (auto simp: design_save_def metadata_consistent_def pre_save_metadata pre_save_keeps
      split: if_splits)

lemma removeFurniture_consistent: "removeFurniture d i = Inr d' \<Longrightarrow> metadata_consistent d'"
  unfolding removeFurniture_def by (rule design_save_consistent)

lemma reduce_sofa: "reduce_totalCost [ex_sofa] = Fin 100"
  using reduce_totalCost_int[of "[ex_sofa]" "[Some 100]"]
  by (simp add: int_prices_def price_bound_def price_total_def ex_sofa_def)

text \<open>
  Claim C3, at a failing input. Every path that goes through \<^verbatim>\<open>save()\<close> leaves the
  metadata consistent (\<open>design_save_consistent\<close>), but \<^verbatim>\<open>PUT /api/designs/:id\<close> writes with
  \<^verbatim>\<open>findByIdAndUpdate\<close>: when alice, the owner, puts the furniture list \<^verbatim>\<open>[sofa]\<close> (price
  100) on her empty design, the route answers 200 and the stored design has one furniture
  item, for which the hook would store the cost 100, while \<^verbatim>\<open>metadata.furnitureCount\<close> and
  \<^verbatim>\<open>metadata.totalCost\<close> are still 0.
\<close>

theorem put_design_stale_metadata:
  "fst (put_design ex_store (Some alice) ''d1'' (empty_body\<lparr>b_furniture := Some [ex_sofa]\<rparr>))
     = Reply 200 ''Design updated successfully''
   \<and> designs (snd (put_design ex_store (Some alice) ''d1'' (empty_body\<lparr>b_furniture := Some [ex_sofa]\<rparr>)))
     = [ex_design\<lparr>furniture := [ex_sofa]\<rparr>, ex_design2]
   \<and> length (furniture (ex_design\<lparr>furniture := [ex_sofa]\<rparr>)) = 1
   \<and> furnitureCount (d_metadata (ex_design\<lparr>furniture := [ex_sofa]\<rparr>)) = 0
   \<and> map price (furniture (ex_design\<lparr>furniture := [ex_sofa]\<rparr>)) = [Some (Fin 100)]
   \<and> reduce_totalCost (furniture (ex_design\<lparr>furniture := [ex_sofa]\<rparr>)) = Fin 100
   \<and> totalCost (d_metadata (ex_design\<lparr>furniture := [ex_sofa]\<rparr>)) = Fin 0
   \<and> \<not> metadata_consistent (ex_design\<lparr>furniture := [ex_sofa]\<rparr>)"
proof -
  have p: "put_design ex_store (Some alice) ''d1'' (empty_body\<lparr>b_furniture := Some [ex_sofa]\<rparr>)
             = (Reply 200 ''Design updated successfully'',
                ex_store\<lparr>designs := [ex_design\<lparr>furniture := [ex_sofa]\<rparr>, ex_design2]\<rparr>)"
    by (simp add: put_design_def ex_store_def ex_design_def ex_design2_def ex_project_def
        ex_project2_def alice_def canEditDesign_def update_validate_def empty_body_def
        furniture_ok_def ex_sofa_def apply_updateData_def or_keep_def str_def)
  have m: "d_metadata (ex_design\<lparr>furniture := [ex_sofa]\<rparr>)
             = \<lparr>totalArea = Fin 0, totalCost = Fin 0, furnitureCount = 0, lastRendered = None\<rparr>"
    "price ex_sofa = Some (Fin 100)"
    by (simp_all add: ex_design_def ex_sofa_def)
  show ?thesis
    by (simp add: p m metadata_consistent_def reduce_sofa)
qed

subsection \<open>C5: updating a furniture item\<close>

text \<open>
  Claim C5, at a failing input. \<open>updateFurniture\<close> looks the item up with
  \<^verbatim>\<open>this.furniture.id(furnitureId)\<close>, which searches by \<^verbatim>\<open>_id\<close>; the items have none, so
  the method fails with \<^verbatim>\<open>Furniture not found\<close> for every design, id and patch. In
  particular it fails for the id \<^verbatim>\<open>sofa-1\<close> on a design that holds an item with that
  \<^verbatim>\<open>id\<close>, and the route answers 404 and leaves the store as it is.
\<close>

theorem updateFurniture_never_finds:
  "updateFurniture this furnitureId updateData = Inl Furniture_not_found
   \<and> list_ex (\<lambda>f. f_id f = ''sofa-1'') (furniture ex_furnished)
   \<and> updateFurniture ex_furnished ''sofa-1'' (empty_patch\<lparr>up_price := Some (Some (Fin 120))\<rparr>)
       = Inl Furniture_not_found
   \<and> put_furniture (ex_store\<lparr>designs := [ex_furnished]\<rparr>) (Some alice) ''d1'' ''sofa-1''
        (empty_patch\<lparr>up_price := Some (Some (Fin 120))\<rparr>)
       = (Reply 404 ''Furniture not found'', ex_store\<lparr>designs := [ex_furnished]\<rparr>)"
proof -
  have a: "updateFurniture this furnitureId updateData = Inl Furniture_not_found"
    for this furnitureId updateData
  proof -
    have "find (\<lambda>val. False) xs = None" for xs :: "furnitureItem list"
      by (induction xs) simp_all
    then show ?thesis
      by (simp add: updateFurniture_def DocumentArray_id_def furnitureItem_oid_def)
  qed
  have b: "list_ex (\<lambda>f. f_id f = ''sofa-1'') (furniture ex_furnished)"
    by (simp add: ex_furnished_def ex_sofa_def)
  have c: "put_furniture (ex_store\<lparr>designs := [ex_furnished]\<rparr>) (Some alice) ''d1'' ''sofa-1''
        (empty_patch\<lparr>up_price := Some (Some (Fin 120))\<rparr>)
       = (Reply 404 ''Furniture not found'', ex_store\<lparr>designs := [ex_furnished]\<rparr>)"
    by (simp add: put_furniture_def a ex_store_def ex_furnished_def ex_design_def ex_project_def
        alice_def canEditDesign_def)
  show ?thesis using a b c by simp
qed

subsection \<open>C9: the tier filter of the template listings\<close>

lemma visible_tiers_cases:
  "visible_tiers None = {Free}"
  "subscription_plan u = Free \<Longrightarrow> visible_tiers (Some u) = {Free}"
  "subscription_plan u = Pro \<Longrightarrow> visible_tiers (Some u) = {Free, Pro}"
  "subscription_plan u = Enterprise \<Longrightarrow> visible_tiers (Some u) = UNIV"
proof -
  have t: "tierRank x \<le> Suc 0 \<longleftrightarrow> x = Free" "tierRank x \<le> 2 \<longleftrightarrow> x = Free \<or> x = Pro"
    "tierRank x \<le> 3" for x
    by (cases x; simp)+
  show "visible_tiers None = {Free}" by (simp add: visible_tiers_def)
  show "subscription_plan u = Free \<Longrightarrow> visible_tiers (Some u) = {Free}"
    by (auto simp: visible_tiers_def t)
  show "subscription_plan u = Pro \<Longrightarrow> visible_tiers (Some u) = {Free, Pro}"
    by (auto simp: visible_tiers_def t)
  show "subscription_plan u = Enterprise \<Longrightarrow> visible_tiers (Some u) = UNIV"
    by (auto simp: visible_tiers_def t)
qed

lemma subscription_filter_visible:
  "(case subscription_filter req_user of Some ps \<Rightarrow> tier \<in> set ps | None \<Rightarrow> True)
     \<longleftrightarrow> tier \<in> visible_tiers req_user"
proof (cases req_user)
  case None
  then show ?thesis by (simp add: subscription_filter_def visible_tiers_cases)
next
  case (Some u)
  then show ?thesis
    by (cases "subscription_plan u") (auto simp: subscription_filter_def visible_tiers_cases)
qed

lemma query_matches_iff:
  "query_matches req_user others t \<longleftrightarrow>
     t_isActive t \<and> others t \<and> requirements_subscription t \<in> visible_tiers req_user"
  unfolding query_matches_def subscription_filter_visible by blast

text \<open>
  The sibling path: the query of \<^verbatim>\<open>GET /api/templates\<close> matches the active templates that
  satisfy the other keys, intersected with the tiers visible to the identity.
\<close>

lemma list_templates_tier_filter:
  "set (filter (query_matches req_user others) coll)
     = {t \<in> set coll. t_isActive t \<and> others t}
         \<inter> {t. requirements_subscription t \<in> visible_tiers req_user}"
  by (auto simp: query_matches_iff)

text \<open>
  Claim C9, at a failing input. The catalogue holds three active templates of the
  category \<^verbatim>\<open>living\<close> and the style \<^verbatim>\<open>modern\<close>, one of each tier. A request without
  credentials to \<^verbatim>\<open>GET /api/templates\<close> is answered with the free template alone. The
  same caller is listed the templates of all three tiers by
  \<^verbatim>\<open>GET /api/templates/category/living\<close> and by \<^verbatim>\<open>GET /api/templates/style/modern\<close>,
  whose handlers read no identity and whose queries have no tier key. The same holds of
  the handlers of the featured templates and of the text search.
\<close>

theorem listings_without_tier_filter:
  "map requirements_subscription
     (fst (list_templates ex_catalogue None (\<lambda>t. True) (\<lambda>xs. xs) 1 20)) = [Free]
   \<and> map requirements_subscription
       (fst (get_by_category ex_catalogue (\<lambda>xs. xs) ''living'' 1 20)) = [Free, Pro, Enterprise]
   \<and> snd (get_by_category ex_catalogue (\<lambda>xs. xs) ''living'' 1 20) = 3
   \<and> map requirements_subscription
       (fst (get_by_style ex_catalogue (\<lambda>xs. xs) ''modern'' 1 20)) = [Free, Pro, Enterprise]
   \<and> map requirements_subscription
       (get_featured (map (\<lambda>t. t\<lparr>t_isFeatured := True\<rparr>) ex_catalogue) (\<lambda>xs. xs) 10)
       = [Free, Pro, Enterprise]
   \<and> map requirements_subscription
       (fst (get_search ex_catalogue (\<lambda>xs. xs) (\<lambda>t. True) 1 20)) = [Free, Pro, Enterprise]"
  by (simp add: list_templates_def query_matches_def subscription_filter_def get_by_category_def
      getByCategory_def get_by_style_def getByStyle_def get_featured_def getFeatured_def
      get_search_def search_templates_def ex_catalogue_def ex_template_def)

subsection \<open>C10: duplicating a public design\<close>

lemma dropWhile_hd: "xs \<noteq> [] \<Longrightarrow> \<not> P (hd xs) \<Longrightarrow> dropWhile P xs = xs"
  by (cases xs) auto

lemma last_dropWhile: "dropWhile P xs \<noteq> [] \<Longrightarrow> last (dropWhile P xs) = last xs"
  by (induction xs) (auto split: if_splits)

lemma trim_id: "s \<noteq> [] \<Longrightarrow> \<not> is_space (hd s) \<Longrightarrow> \<not> is_space (last s) \<Longrightarrow> trim s = s"
  by (simp add: trim_def dropWhile_hd hd_rev)

lemma trim_ends:
  assumes "trim s \<noteq> []"
  shows "\<not> is_space (hd (trim s))" and "\<not> is_space (last (trim s))"
proof -
  let ?v = "dropWhile is_space s"
  let ?u = "dropWhile is_space (rev ?v)"
  have u: "?u \<noteq> []" using assms by (simp add: trim_def)
  then have v: "?v \<noteq> []" by (metis dropWhile.simps(1) rev.simps(1))
  have "last ?u = last (rev ?v)" by (rule last_dropWhile[OF u])
  also have "\<dots> = hd ?v" using v by (simp add: last_rev)
  finally have "hd (trim s) = hd ?v" using u by (simp add: trim_def hd_rev)
  then show "\<not> is_space (hd (trim s))" using hd_dropWhile[OF v] by simp
  have "last (trim s) = hd ?u" using u by (simp add: trim_def last_rev)
  then show "\<not> is_space (last (trim s))" using hd_dropWhile[OF u] by simp
qed

lemma trim_idem: "trim (trim s) = trim s"
proof (cases "trim s = []")
  case True
  have "trim [] = []" by (simp add: trim_def)
  then show ?thesis using True by simp
next
  case False
  then show ?thesis by (intro trim_id trim_ends)
qed

lemma trim_nonempty:
  assumes "s \<noteq> []" and "\<not> is_space (last s)"
  shows "trim s \<noteq> []"
proof -
  let ?v = "dropWhile is_space s"
  have "last s \<in> set s" using assms(1) by simp
  then have v: "?v \<noteq> []" using assms(2) by (auto simp: dropWhile_eq_Nil_conv)
  have "last ?v = last s" by (rule last_dropWhile[OF v])
  then have "\<not> is_space (hd (rev ?v))" using v assms(2) by (simp add: hd_rev)
  then have "dropWhile is_space (rev ?v) = rev ?v" using v by (intro dropWhile_hd) simp_all
  then show ?thesis using v by (simp add: trim_def)
qed

lemma copy_name_cases:
  "copy_name D None = trim (d_name D @ str '' (Copy)'')"
  "trim n \<noteq> [] \<Longrightarrow> copy_name D (Some n) = trim n"
  "trim n = [] \<Longrightarrow> copy_name D (Some n) = trim (d_name D @ str '' (Copy)'')"
  by (simp_all add: copy_name_def trim_idem)

lemma copy_suffix_nonempty: "trim (n @ str '' (Copy)'') \<noteq> []"
  by (intro trim_nonempty) (simp_all add: str_def is_space_def)

lemma canReadDesign_public: "d_isPublic D \<Longrightarrow> canReadDesign P D U"
  by (simp add: canReadDesign_def)

lemma duplicate_design_unfold:
  assumes "find (\<lambda>d. d_oid d = i) (designs s) = Some D"
    and "find (\<lambda>p. p_oid p = d_project D) (projects s) = Some P"
    and "d_isPublic D"
  shows "duplicate_design s (Some U) i body_name new_oid =
     (case design_save
        \<lparr>d_oid = new_oid, d_project = p_oid P, d_name = copy_name D body_name,
         d_description = d_description D, d_version = ''1.0.0'', d_settings = d_settings D,
         d_elements = d_elements D, furniture = furniture D, layers = layers D,
         camera = camera D, d_environment = d_environment D,
         d_metadata = \<lparr>totalArea = Fin 0, totalCost = Fin 0, furnitureCount = 0,
                       lastRendered = None\<rparr>,
         d_isPublic = False, d_tags = [], d_status = Draft\<rparr> of
        Inl e \<Rightarrow> (Reply 500 ''Server error while duplicating design'', s)
      | Inr saved \<Rightarrow> (Reply 201 ''Design duplicated successfully'', s\<lparr>designs := designs s @ [saved]\<rparr>))"
  using assms by (simp add: duplicate_design_def canReadDesign_public Let_def)

lemma copy_name_long: "copy_name ex_long_design None = replicate 100 97 @ str '' (Copy)''"
proof -
  have "d_name ex_long_design = 97 # replicate 99 97"
    by (simp add: ex_long_design_def ex_design_def numeral_eq_Suc)
  then show ?thesis
    by (simp add: copy_name_cases trim_id is_space_def ex_long_design_def ex_design_def str_def)
qed

lemma ex_long_design_facts:
  "find (\<lambda>d. d_oid d = ''d3'') (designs (ex_store\<lparr>designs := [ex_long_design]\<rparr>)) = Some ex_long_design"
  "find (\<lambda>p. p_oid p = d_project ex_long_design) (projects (ex_store\<lparr>designs := [ex_long_design]\<rparr>))
     = Some ex_project"
  "d_isPublic ex_long_design" "design_validate ex_long_design"
  by (simp_all add: ex_store_def ex_long_design_def ex_design_def ex_project_def
      design_validate_def name_ok_def description_ok_def tags_ok_def furniture_ok_def
      elements_ok_def)

text \<open>
  Claim C10, as amended. Let \<open>D\<close> be a stored, valid design with \<^verbatim>\<open>isPublic = true\<close> whose
  project \<open>P\<close> is in the store, and \<open>U\<close> any authenticated user (owner, collaborator or
  stranger). The duplicate route never answers 403. When the request gives no name, or a
  name that is not empty once trimmed, and the name of the copy (the trimmed given name,
  or the source name followed by \<^verbatim>\<open> (Copy)\<close>) has at most 100 characters, the route
  answers 201 and appends one new design, which is under the project of \<open>D\<close>, that is
  \<open>P\<close>.
\<close>

theorem duplicate_public_design:
  assumes "find (\<lambda>d. d_oid d = i) (designs s) = Some D"
    and "find (\<lambda>p. p_oid p = d_project D) (projects s) = Some P"
    and "d_isPublic D"
    and "design_validate D"
  shows "fst (duplicate_design s (Some U) i body_name new_oid) \<noteq> Reply 403 ''Access denied''
       \<and> ((case body_name of None \<Rightarrow> True | Some n \<Rightarrow> trim n \<noteq> [])
           \<and> length (copy_name D body_name) \<le> 100 \<longrightarrow>
            (\<exists>N. duplicate_design s (Some U) i body_name new_oid
                   = (Reply 201 ''Design duplicated successfully'', s\<lparr>designs := designs s @ [N]\<rparr>)
                 \<and> d_oid N = new_oid \<and> d_project N = d_project D \<and> d_project N = p_oid P
                 \<and> d_name N = copy_name D body_name
                 \<and> furniture N = furniture D \<and> d_elements N = d_elements D
                 \<and> d_version N = ''1.0.0'' \<and> d_status N = Draft))"
proof -
  have p: "p_oid P = d_project D" using find_Some_oid[OF assms(2)] by simp
  let ?N = "\<lparr>d_oid = new_oid, d_project = p_oid P, d_name = copy_name D body_name,
         d_description = d_description D, d_version = ''1.0.0'', d_settings = d_settings D,
         d_elements = d_elements D, furniture = furniture D, layers = layers D,
         camera = camera D, d_environment = d_environment D,
         d_metadata = \<lparr>totalArea = Fin 0, totalCost = Fin 0, furnitureCount = 0,
                       lastRendered = None\<rparr>,
         d_isPublic = False, d_tags = [], d_status = Draft\<rparr>"
  have v: "design_validate ?N \<longleftrightarrow> name_ok (copy_name D body_name)"
    using assms(4) by (simp add: design_validate_def tags_ok_def)
  have no403: "fst (duplicate_design s (Some U) i body_name new_oid) \<noteq> Reply 403 ''Access denied''"
    by (simp add: duplicate_design_unfold[OF assms(1-3)] design_save_def)
  have ok: "\<exists>N. duplicate_design s (Some U) i body_name new_oid
                   = (Reply 201 ''Design duplicated successfully'', s\<lparr>designs := designs s @ [N]\<rparr>)
                 \<and> d_oid N = new_oid \<and> d_project N = d_project D \<and> d_project N = p_oid P
                 \<and> d_name N = copy_name D body_name
                 \<and> furniture N = furniture D \<and> d_elements N = d_elements D
                 \<and> d_version N = ''1.0.0'' \<and> d_status N = Draft"
    if n: "name_ok (copy_name D body_name)"
  proof -
    have "duplicate_design s (Some U) i body_name new_oid
                   = (Reply 201 ''Design duplicated successfully'',
                      s\<lparr>designs := designs s @ [design_pre_save ?N]\<rparr>)"
      using v n by (simp add: duplicate_design_unfold[OF assms(1-3)] design_save_def)
    then show ?thesis
      using p by (intro exI[where x = "design_pre_save ?N"]) (simp add: design_pre_save_def)
  qed
  have ne: "copy_name D body_name \<noteq> []"
    if "case body_name of None \<Rightarrow> True | Some n \<Rightarrow> trim n \<noteq> []"
    using that by (cases body_name) (simp_all add: copy_name_cases copy_suffix_nonempty)
  show ?thesis
    using no403 ok ne by (auto simp: name_ok_def)
qed

text \<open>
  The claim as stated fails: dave, a stranger, duplicates a public design whose name has
  100 characters without giving a name; the copy's name has 107 characters, the save is
  rejected and the route answers 500.
\<close>

theorem duplicate_public_design_counterexample:
  "d_isPublic ex_long_design \<and> design_validate ex_long_design
   \<and> duplicate_design (ex_store\<lparr>designs := [ex_long_design]\<rparr>) (Some dave) ''d3'' None ''d4''
       = (Reply 500 ''Server error while duplicating design'', ex_store\<lparr>designs := [ex_long_design]\<rparr>)"
proof -
  have n: "\<not> name_ok (copy_name ex_long_design None)"
    by (simp add: copy_name_long name_ok_def str_def)
  have "\<not> design_validate
        \<lparr>d_oid = ''d4'', d_project = p_oid ex_project, d_name = copy_name ex_long_design None,
         d_description = d_description ex_long_design, d_version = ''1.0.0'',
         d_settings = d_settings ex_long_design, d_elements = d_elements ex_long_design,
         furniture = furniture ex_long_design, layers = layers ex_long_design,
         camera = camera ex_long_design, d_environment = d_environment ex_long_design,
         d_metadata = \<lparr>totalArea = Fin 0, totalCost = Fin 0, furnitureCount = 0,
                       lastRendered = None\<rparr>,
         d_isPublic = False, d_tags = [], d_status = Draft\<rparr>"
    using n by (simp add: design_validate_def)
  then show ?thesis
    using ex_long_design_facts(3,4)
    by (simp add: duplicate_design_unfold[OF ex_long_design_facts(1-3)] design_save_def)
qed

text \<open>
  A given name that is white space only is discarded like an absent one: for the name of
  one no-break space the copy of the long design is named after its source, and fails.
\<close>

lemma duplicate_nbsp_name:
  "duplicate_design (ex_store\<lparr>designs := [ex_long_design]\<rparr>) (Some dave) ''d3'' (Some [0xA0]) ''d4''
       = (Reply 500 ''Server error while duplicating design'', ex_store\<lparr>designs := [ex_long_design]\<rparr>)"
proof -
  have t: "trim [0xA0] = []" by (simp add: trim_def is_space_def)
  have n: "\<not> name_ok (copy_name ex_long_design (Some [0xA0]))"
  proof -
    have "copy_name ex_long_design (Some [0xA0]) = copy_name ex_long_design None"
      by (simp only: copy_name_cases(1) copy_name_cases(3)[OF t])
    then show ?thesis
      by (simp add: copy_name_long name_ok_def str_def)
  qed
  have "\<not> design_validate
        \<lparr>d_oid = ''d4'', d_project = p_oid ex_project, d_name = copy_name ex_long_design (Some [0xA0]),
         d_description = d_description ex_long_design, d_version = ''1.0.0'',
         d_settings = d_settings ex_long_design, d_elements = d_elements ex_long_design,
         furniture = furniture ex_long_design, layers = layers ex_long_design,
         camera = camera ex_long_design, d_environment = d_environment ex_long_design,
         d_metadata = \<lparr>totalArea = Fin 0, totalCost = Fin 0, furnitureCount = 0,
                       lastRendered = None\<rparr>,
         d_isPublic = False, d_tags = [], d_status = Draft\<rparr>"
    using n by (simp add: design_validate_def)
  then show ?thesis
    by (simp add: duplicate_design_unfold[OF ex_long_design_facts(1-3)] design_save_def)
qed

theorem duplicate_public_design_witness:
  "fst (duplicate_design ex_store (Some dave) ''d1'' None ''d9'') = Reply 201 ''Design duplicated successfully''
   \<and> owner ex_project \<noteq> u_oid dave
   \<and> \<not> list_ex (\<lambda>c. c_user c = u_oid dave) (collaborators ex_project)
   \<and> length (designs (snd (duplicate_design ex_store (Some dave) ''d1'' None ''d9''))) = 3
   \<and> d_project (last (designs (snd (duplicate_design ex_store (Some dave) ''d1'' None ''d9'')))) = p_oid ex_project
   \<and> d_name (last (designs (snd (duplicate_design ex_store (Some dave) ''d1'' None ''d9'')))) = str ''Plan (Copy)''
   \<and> fst (duplicate_design (ex_store\<lparr>designs := [ex_long_design]\<rparr>) (Some dave) ''d3'' (Some (str ''Tall'')) ''d4'')
       = Reply 201 ''Design duplicated successfully''"
proof -
  have f: "find (\<lambda>d. d_oid d = ''d1'') (designs ex_store) = Some ex_design"
    "find (\<lambda>p. p_oid p = d_project ex_design) (projects ex_store) = Some ex_project"
    "d_isPublic ex_design" "design_validate ex_design"
    by (simp_all add: ex_store_def ex_design_def ex_project_def design_validate_def name_ok_def
        description_ok_def tags_ok_def furniture_ok_def elements_ok_def str_def)
  have t: "trim (str ''Tall'') = str ''Tall''"
    by (simp add: trim_id is_space_def str_def)
  have n: "copy_name ex_design None = str ''Plan (Copy)''"
    "copy_name ex_long_design (Some (str ''Tall'')) = str ''Tall''"
    "trim (str ''Tall'') \<noteq> []" "length (str ''Plan (Copy)'') \<le> 100" "length (str ''Tall'') \<le> 100"
    by (simp_all add: copy_name_def t) (simp_all add: trim_id is_space_def ex_design_def str_def)
  have o: "owner ex_project \<noteq> u_oid dave" "\<not> list_ex (\<lambda>c. c_user c = u_oid dave) (collaborators ex_project)"
    "length (designs ex_store) = 2"
    by (simp_all add: ex_project_def dave_def ex_store_def)
  note m1 = duplicate_public_design [OF f, where U = dave and body_name = None and new_oid = "''d9''"]
  note m2 = duplicate_public_design [OF ex_long_design_facts, where U = dave
      and body_name = "Some (str ''Tall'')" and new_oid = "''d4''"]
  have c1: "\<exists>N. duplicate_design ex_store (Some dave) ''d1'' None ''d9''
              = (Reply 201 ''Design duplicated successfully'', ex_store\<lparr>designs := designs ex_store @ [N]\<rparr>)
              \<and> d_project N = p_oid ex_project \<and> d_name N = str ''Plan (Copy)''"
    using m1 n(1,4) by auto
  have c2: "fst (duplicate_design (ex_store\<lparr>designs := [ex_long_design]\<rparr>) (Some dave) ''d3'' (Some (str ''Tall'')) ''d4'')
       = Reply 201 ''Design duplicated successfully''"
    using m2 n(2,3,5) by auto
  show ?thesis
    using c1 c2 o by auto
qed

end
